theory Spec2Isabelle
  imports Complex_Main
begin

section \<open>Data model\<close>

text \<open>
  A shallow embedding of \<^verbatim>\<open>market_maker.py\<close>. A finite Python float is modelled
  by a real (no rounding). The special values NaN and +/-Infinity are values of the type
  \<open>pyfloat\<close>: the results of \<^verbatim>\<open>float(...)\<close> on parsed JSON, the cached capital, the
  quoted price and the order size are of this type, with Python's arithmetic and
  comparisons on the special values. The loop's step relation reads a finite mid price
  and a finite position at each step.
  The module's globals are fields of explicit state records; values that other tasks
  write between the loop's suspension points (mid price, capital, position) are inputs
  of the step that reads them.
\<close>

datatype side = Buy | Sell

datatype pyfloat = Fin real | PosInf | NegInf | NaN

text \<open>
  A value as \<^verbatim>\<open>json.load\<close> returns it. A dict is the association list of its
  keys, read by \<open>map_of\<close>; an integer literal is a Python int of any size.
\<close>

datatype json =
    JNull
  | JBool bool
  | JInt int
  | JFloat pyfloat
  | JStr string
  | JList "json list"
  | JDict "(string \<times> json) list"

datatype py_error =
    ValueError | TypeError | OverflowError | AttributeError | KeyError
  | ZeroDivisionError | OSError

subsection \<open>Configuration (module constants and environment variables)\<close>

definition SPREAD :: real where
  "SPREAD = 0.035 / 100.0"

definition BASE_AMOUNT :: real where
  "BASE_AMOUNT = 0.047"

definition CAPITAL_USAGE_PERCENT :: real where
  "CAPITAL_USAGE_PERCENT = 0.99"

definition SAFETY_MARGIN_PERCENT :: real where
  "SAFETY_MARGIN_PERCENT = 0.01"

definition AVELLANEDA_REFRESH_INTERVAL :: real where
  "AVELLANEDA_REFRESH_INTERVAL = 900"

record config =
  USE_DYNAMIC_SIZING :: bool
  REQUIRE_PARAMS :: bool
  PARAMS_DIR :: string
  MARKET_SYMBOL :: string
  ACCOUNT_INDEX :: int
  MARKET_ID :: int
  PRICE_TICK_SIZE :: real
  AMOUNT_TICK_SIZE :: real

subsection \<open>Python builtins on parsed JSON\<close>

text \<open>
  \<^verbatim>\<open>float(x)\<close>: None, lists and dicts raise TypeError; a bool is 1.0 or 0.0; an int
  converts unless it is beyond the range of a double (OverflowError); a string is
  parsed by the interpreter, which is the parameter \<open>sf\<close> (None: ValueError).
\<close>

definition float_overflow_bound :: int where
  "float_overflow_bound = 2 ^ 1024 - 2 ^ 970"

fun py_float :: "(string \<Rightarrow> pyfloat option) \<Rightarrow> json \<Rightarrow> py_error + pyfloat" where
  "py_float sf JNull = Inl TypeError"
| "py_float sf (JBool b) = Inr (Fin (if b then 1 else 0))"
| "py_float sf (JInt n) =
     (if float_overflow_bound \<le> \<bar>n\<bar> then Inl OverflowError else Inr (Fin (real_of_int n)))"
| "py_float sf (JFloat x) = Inr x"
| "py_float sf (JStr s) = (case sf s of None \<Rightarrow> Inl ValueError | Some x \<Rightarrow> Inr x)"
| "py_float sf (JList xs) = Inl TypeError"
| "py_float sf (JDict kvs) = Inl TypeError"

text \<open>Truthiness, as \<^verbatim>\<open>if not data\<close> reads it.\<close>

fun truthy :: "json \<Rightarrow> bool" where
  "truthy JNull = False"
| "truthy (JBool b) = b"
| "truthy (JInt n) = (n \<noteq> 0)"
| "truthy (JFloat x) = (x \<noteq> Fin 0)"
| "truthy (JStr s) = (s \<noteq> [])"
| "truthy (JList xs) = (xs \<noteq> [])"
| "truthy (JDict kvs) = (kvs \<noteq> [])"

text \<open>\<^verbatim>\<open>d.get(k, default)\<close>: only a dict has the method.\<close>

fun dict_get :: "json \<Rightarrow> string \<Rightarrow> json \<Rightarrow> py_error + json" where
  "dict_get (JDict kvs) k dflt = Inr (case map_of kvs k of None \<Rightarrow> dflt | Some v \<Rightarrow> v)"
| "dict_get d k dflt = Inl AttributeError"

text \<open>\<^verbatim>\<open>d[k]\<close> with a string key.\<close>

fun subscript :: "json \<Rightarrow> string \<Rightarrow> py_error + json" where
  "subscript (JDict kvs) k = (case map_of kvs k of None \<Rightarrow> Inl KeyError | Some v \<Rightarrow> Inr v)"
| "subscript d k = Inl TypeError"

fun isfinite :: "pyfloat \<Rightarrow> bool" where
  "isfinite (Fin x) = True"
| "isfinite x = False"

fun pf_gt_zero :: "pyfloat \<Rightarrow> bool" where
  "pf_gt_zero (Fin x) = (0 < x)"
| "pf_gt_zero PosInf = True"
| "pf_gt_zero x = False"

fun pf_lt_zero :: "pyfloat \<Rightarrow> bool" where
  "pf_lt_zero (Fin x) = (x < 0)"
| "pf_lt_zero NegInf = True"
| "pf_lt_zero x = False"

fun pf_neg :: "pyfloat \<Rightarrow> pyfloat" where
  "pf_neg (Fin x) = Fin (- x)"
| "pf_neg PosInf = NegInf"
| "pf_neg NegInf = PosInf"
| "pf_neg NaN = NaN"

fun pf_add :: "pyfloat \<Rightarrow> pyfloat \<Rightarrow> pyfloat" where
  "pf_add (Fin x) (Fin y) = Fin (x + y)"
| "pf_add NaN y = NaN"
| "pf_add x NaN = NaN"
| "pf_add PosInf NegInf = NaN"
| "pf_add NegInf PosInf = NaN"
| "pf_add PosInf y = PosInf"
| "pf_add NegInf y = NegInf"
| "pf_add x PosInf = PosInf"
| "pf_add x NegInf = NegInf"

definition pf_sub :: "pyfloat \<Rightarrow> pyfloat \<Rightarrow> pyfloat" where
  "pf_sub x y = pf_add x (pf_neg y)"

text \<open>\<^verbatim>\<open>x < y\<close> and \<^verbatim>\<open>x <= y\<close>: every comparison with NaN is False.\<close>

fun pf_less :: "pyfloat \<Rightarrow> pyfloat \<Rightarrow> bool" where
  "pf_less (Fin x) (Fin y) = (x < y)"
| "pf_less NaN y = False"
| "pf_less x NaN = False"
| "pf_less NegInf NegInf = False"
| "pf_less NegInf y = True"
| "pf_less PosInf y = False"
| "pf_less (Fin x) PosInf = True"
| "pf_less (Fin x) NegInf = False"

definition pf_le :: "pyfloat \<Rightarrow> pyfloat \<Rightarrow> bool" where
  "pf_le x y = (pf_less x y \<or> (x = y \<and> x \<noteq> NaN))"

text \<open>
  \<^verbatim>\<open>x * y\<close>: infinity times zero is NaN, otherwise the signs multiply.
\<close>

definition inf_times :: "bool \<Rightarrow> real \<Rightarrow> pyfloat" where
  "inf_times positive y =
     (if y = 0 then NaN else if (0 < y) = positive then PosInf else NegInf)"

fun pf_mul :: "pyfloat \<Rightarrow> pyfloat \<Rightarrow> pyfloat" where
  "pf_mul (Fin x) (Fin y) = Fin (x * y)"
| "pf_mul NaN y = NaN"
| "pf_mul x NaN = NaN"
| "pf_mul PosInf (Fin y) = inf_times True y"
| "pf_mul NegInf (Fin y) = inf_times False y"
| "pf_mul (Fin x) PosInf = inf_times True x"
| "pf_mul (Fin x) NegInf = inf_times False x"
| "pf_mul PosInf PosInf = PosInf"
| "pf_mul NegInf NegInf = PosInf"
| "pf_mul PosInf NegInf = NegInf"
| "pf_mul NegInf PosInf = NegInf"

text \<open>
  \<^verbatim>\<open>x / y\<close> for a divisor that is not zero (Python raises ZeroDivisionError for a
  zero divisor; the one division modelled with this function stands under the test
  \<^verbatim>\<open>current_mid_price > 0\<close>): infinity by infinity is NaN, a finite value by
  infinity is 0.
\<close>

fun pf_div :: "pyfloat \<Rightarrow> pyfloat \<Rightarrow> pyfloat" where
  "pf_div (Fin x) (Fin y) = Fin (x / y)"
| "pf_div NaN y = NaN"
| "pf_div x NaN = NaN"
| "pf_div PosInf (Fin y) = inf_times True y"
| "pf_div NegInf (Fin y) = inf_times False y"
| "pf_div (Fin x) PosInf = Fin 0"
| "pf_div (Fin x) NegInf = Fin 0"
| "pf_div PosInf PosInf = NaN"
| "pf_div NegInf NegInf = NaN"
| "pf_div PosInf NegInf = NaN"
| "pf_div NegInf PosInf = NaN"

text \<open>
  \<^verbatim>\<open>max(x, y)\<close> keeps its first argument unless the second is greater, so
  \<^verbatim>\<open>max(nan, y)\<close> is NaN.
\<close>

definition py_max :: "pyfloat \<Rightarrow> pyfloat \<Rightarrow> pyfloat" where
  "py_max x y = (if pf_less x y then y else x)"

section \<open>Account state cache: \<^verbatim>\<open>on_user_stats_update\<close>\<close>

record capital_state =
  available_capital :: "pyfloat option"
  portfolio_value :: "pyfloat option"
  account_state_received :: bool

text \<open>
  The handler's \<^verbatim>\<open>except (ValueError, TypeError)\<close>: these two are logged and
  swallowed, any other exception leaves the handler.
\<close>

definition stats_handler :: "py_error \<Rightarrow> py_error option" where
  "stats_handler e = (if e = ValueError \<or> e = TypeError then None else Some e)"

text \<open>
  The result is the exception that escapes the handler, if any, and the cache after the
  call. \<open>account_id\<close> is the integer the subscription task passes.
\<close>

definition on_user_stats_update ::
  "(string \<Rightarrow> pyfloat option) \<Rightarrow> config \<Rightarrow> int \<Rightarrow> json \<Rightarrow> capital_state
    \<Rightarrow> py_error option \<times> capital_state" where
  "on_user_stats_update sf cfg account_id stats st =
     (if account_id = ACCOUNT_INDEX cfg then
        (case dict_get stats ''available_balance'' (JInt 0) of
           Inl e \<Rightarrow> (stats_handler e, st)
         | Inr a \<Rightarrow>
        (case py_float sf a of
           Inl e \<Rightarrow> (stats_handler e, st)
         | Inr new_available_capital \<Rightarrow>
        (case dict_get stats ''portfolio_value'' (JInt 0) of
           Inl e \<Rightarrow> (stats_handler e, st)
         | Inr p \<Rightarrow>
        (case py_float sf p of
           Inl e \<Rightarrow> (stats_handler e, st)
         | Inr new_portfolio_value \<Rightarrow>
             if pf_gt_zero new_available_capital \<and> pf_gt_zero new_portfolio_value
             then (None, st\<lparr>available_capital := Some new_available_capital,
                            portfolio_value := Some new_portfolio_value,
                            account_state_received := True\<rparr>)
             else (None, st)))))
      else (None, st))"

section \<open>Capital and size calculator: \<^verbatim>\<open>calculate_dynamic_base_amount\<close>\<close>

text \<open>
  The function reads the global \<^verbatim>\<open>available_capital\<close>: None until the first
  accepted update, then a float the handler accepted (finite and positive, or
  +Infinity). \<^verbatim>\<open>current_mid_price and current_mid_price > 0\<close> is false for None,
  for 0, for NaN and for anything not above 0.
\<close>

definition calculate_dynamic_base_amount ::
  "config \<Rightarrow> pyfloat option \<Rightarrow> pyfloat option \<Rightarrow> pyfloat" where
  "calculate_dynamic_base_amount cfg capital current_mid_price =
     (if \<not> USE_DYNAMIC_SIZING cfg then Fin BASE_AMOUNT
      else case capital of
        None \<Rightarrow> Fin BASE_AMOUNT
      | Some cap \<Rightarrow>
          if pf_le cap (Fin 0) then Fin BASE_AMOUNT
          else
            let usable_capital = pf_mul cap (Fin (1 - SAFETY_MARGIN_PERCENT));
                order_capital = pf_mul usable_capital (Fin CAPITAL_USAGE_PERCENT)
            in (case current_mid_price of
                  None \<Rightarrow> Fin BASE_AMOUNT
                | Some mid \<Rightarrow>
                    if mid \<noteq> Fin 0 \<and> pf_less (Fin 0) mid
                    then py_max (pf_div order_capital mid) (Fin 0.001)
                    else Fin BASE_AMOUNT))"

section \<open>Controller state and the trading transport\<close>

text \<open>
  The trading transport is an external collaborator. The model keeps the calls made on
  it, and the account's open orders as the exchange acknowledged them: an acknowledged
  \<^verbatim>\<open>create_order\<close> adds the order, an acknowledged \<^verbatim>\<open>cancel_all_orders\<close>
  removes every order (fills, which only remove orders, are not modelled). A call
  answers with an acknowledgement, with an error value, or by raising.
\<close>

datatype response = Ack | Err | Raised

datatype transport_call =
    CreateOrder int nat int int bool bool
  | CancelAllOrders

record bot_state =
  current_order_id :: "nat option"
  last_mid_price :: "real option"
  order_side :: side
  last_order_base_amount :: pyfloat
  avellaneda_params :: "json option"
  last_avellaneda_update :: real
  exchange_orders :: "nat list"
  transport_calls :: "transport_call list"

section \<open>Quote pricing engine\<close>

subsection \<open>\<^verbatim>\<open>load_avellaneda_parameters\<close>\<close>

text \<open>What \<^verbatim>\<open>open(p)\<close> followed by \<^verbatim>\<open>json.load\<close> does for a path.\<close>

datatype file_state = FileNotFound | ReadError | InvalidJSON | Contents json

definition os_path_join :: "string \<Rightarrow> string \<Rightarrow> string" where
  "os_path_join a b =
     (if b \<noteq> [] \<and> hd b = CHR ''/'' then b
      else if a = [] \<or> last a = CHR ''/'' then a @ b
      else a @ ''/'' @ b)"

definition params_file_name :: "config \<Rightarrow> string" where
  "params_file_name cfg = ''avellaneda_parameters_'' @ MARKET_SYMBOL cfg @ ''.json''"

definition candidates :: "config \<Rightarrow> string list" where
  "candidates cfg =
     [os_path_join (PARAMS_DIR cfg) (params_file_name cfg),
      ''params/'' @ params_file_name cfg,
      params_file_name cfg,
      ''TRADER/'' @ params_file_name cfg]"

text \<open>
  The \<^verbatim>\<open>for p in candidates\<close> loop: FileNotFoundError continues, a loaded file
  breaks, JSONDecodeError returns False, any other exception propagates to the outer
  handler.
\<close>

datatype read_result = Data "json option" | ReturnFalse | Propagate

fun read_candidates :: "(string \<Rightarrow> file_state) \<Rightarrow> string list \<Rightarrow> read_result" where
  "read_candidates fs [] = Data None"
| "read_candidates fs (p # ps) =
     (case fs p of
        FileNotFound \<Rightarrow> read_candidates fs ps
      | Contents d \<Rightarrow> Data (Some d)
      | InvalidJSON \<Rightarrow> ReturnFalse
      | ReadError \<Rightarrow> Propagate)"

text \<open>
  The checks on the loaded data, from \<^verbatim>\<open>if not data\<close> to the test of the two
  offsets: every path that returns False or raises (AttributeError of \<^verbatim>\<open>data.get\<close>
  on a value that is not a dict, caught by the outer handler) gives False.
\<close>

definition params_accepted :: "(string \<Rightarrow> pyfloat option) \<Rightarrow> json \<Rightarrow> bool" where
  "params_accepted sf data =
     (if \<not> truthy data then False
      else case dict_get data ''limit_orders'' JNull of
        Inl e \<Rightarrow> False
      | Inr lo \<Rightarrow>
          (case lo of
             JDict lkvs \<Rightarrow>
               (case dict_get lo ''delta_a'' JNull of
                  Inl e \<Rightarrow> False
                | Inr da \<Rightarrow>
               (case dict_get lo ''delta_b'' JNull of
                  Inl e \<Rightarrow> False
                | Inr db \<Rightarrow>
               (case py_float sf da of
                  Inl e \<Rightarrow> False
                | Inr fa \<Rightarrow>
               (case py_float sf db of
                  Inl e \<Rightarrow> False
                | Inr fb \<Rightarrow>
                    \<not> (\<not> (isfinite fa \<and> isfinite fb) \<or> pf_lt_zero fa \<or> pf_lt_zero fb)))))
           | _ \<Rightarrow> False))"

text \<open>
  Returns the function's result and the state after it. The whole body stands inside
  \<^verbatim>\<open>try ... except Exception\<close>, so the function raises nothing and the model has
  no error result. The cache is cleared before the candidates are read, and once more by
  the outer handler; the log lines after \<^verbatim>\<open>last_avellaneda_update = now\<close> have
  no effect on the state.
\<close>

definition load_avellaneda_parameters ::
  "(string \<Rightarrow> pyfloat option) \<Rightarrow> config \<Rightarrow> real \<Rightarrow> (string \<Rightarrow> file_state) \<Rightarrow> bot_state
    \<Rightarrow> bool \<times> bot_state" where
  "load_avellaneda_parameters sf cfg now fs st =
     (if avellaneda_params st \<noteq> None
         \<and> now - last_avellaneda_update st < AVELLANEDA_REFRESH_INTERVAL
      then (True, st)
      else
        let st1 = st\<lparr>avellaneda_params := None\<rparr> in
        (case read_candidates fs (candidates cfg) of
           ReturnFalse \<Rightarrow> (False, st1)
         | Propagate \<Rightarrow> (False, st1\<lparr>avellaneda_params := None\<rparr>)
         | Data None \<Rightarrow> (False, st1)
         | Data (Some data) \<Rightarrow>
             if params_accepted sf data
             then (True, st1\<lparr>avellaneda_params := Some data, last_avellaneda_update := now\<rparr>)
             else (False, st1\<lparr>avellaneda_params := None\<rparr>)))"

subsection \<open>\<^verbatim>\<open>calculate_order_price\<close>\<close>

text \<open>
  The result is an exception (the function has no handler of its own), None for
  no-quote, or a price; with it the state the loader left.
\<close>

definition cached_delta ::
  "(string \<Rightarrow> pyfloat option) \<Rightarrow> json \<Rightarrow> string \<Rightarrow> py_error + pyfloat" where
  "cached_delta sf params k =
     (case subscript params ''limit_orders'' of
        Inl e \<Rightarrow> Inl e
      | Inr lo \<Rightarrow>
          (case subscript lo k of
             Inl e \<Rightarrow> Inl e
           | Inr v \<Rightarrow> py_float sf v))"

definition calculate_order_price ::
  "(string \<Rightarrow> pyfloat option) \<Rightarrow> config \<Rightarrow> real \<Rightarrow> (string \<Rightarrow> file_state) \<Rightarrow> real \<Rightarrow> side
    \<Rightarrow> bot_state \<Rightarrow> (py_error + pyfloat option) \<times> bot_state" where
  "calculate_order_price sf cfg now fs mid_price sd st =
     (case load_avellaneda_parameters sf cfg now fs st of
        (ok, st') \<Rightarrow>
          (case (if ok then avellaneda_params st' else None) of
             Some params \<Rightarrow>
               if truthy params then
                 (if sd = Buy
                  then (case cached_delta sf params ''delta_b'' of
                          Inl e \<Rightarrow> (Inl e, st')
                        | Inr d \<Rightarrow> (Inr (Some (pf_sub (Fin mid_price) d)), st'))
                  else (case cached_delta sf params ''delta_a'' of
                          Inl e \<Rightarrow> (Inl e, st')
                        | Inr d \<Rightarrow> (Inr (Some (pf_add (Fin mid_price) d)), st')))
               else if REQUIRE_PARAMS cfg then (Inr None, st')
               else (Inr (Some (Fin (if sd = Buy then mid_price * (1.0 - SPREAD)
                                     else mid_price * (1.0 + SPREAD)))), st')
           | None \<Rightarrow>
               if REQUIRE_PARAMS cfg then (Inr None, st')
               else (Inr (Some (Fin (if sd = Buy then mid_price * (1.0 - SPREAD)
                                     else mid_price * (1.0 + SPREAD)))), st')))"

section \<open>Orders: \<^verbatim>\<open>place_order\<close> and \<^verbatim>\<open>cancel_order\<close>\<close>

text \<open>\<^verbatim>\<open>int(x)\<close> of a float truncates towards zero.\<close>

definition py_int :: "real \<Rightarrow> int" where
  "py_int x = (if 0 \<le> x then \<lfloor>x\<rfloor> else \<lceil>x\<rceil>)"

text \<open>
  \<^verbatim>\<open>int(x / tick)\<close>: a zero tick raises ZeroDivisionError, an infinite quotient
  OverflowError, NaN ValueError.
\<close>

definition scaled :: "pyfloat \<Rightarrow> real \<Rightarrow> py_error + int" where
  "scaled x tick =
     (if tick = 0 then Inl ZeroDivisionError
      else case x of
        Fin v \<Rightarrow> Inr (py_int (v / tick))
      | NaN \<Rightarrow> Inl ValueError
      | PosInf \<Rightarrow> Inl OverflowError
      | NegInf \<Rightarrow> Inl OverflowError)"

text \<open>
  The two scalings stand before the \<^verbatim>\<open>try\<close>: their exceptions leave the function.
  Inside it, an error value and an exception both return False.
\<close>

definition place_order ::
  "response \<Rightarrow> config \<Rightarrow> side \<Rightarrow> pyfloat \<Rightarrow> nat \<Rightarrow> pyfloat \<Rightarrow> bot_state
    \<Rightarrow> (py_error + bool) \<times> bot_state" where
  "place_order resp cfg sd price order_id base_amount st =
     (let is_ask = (sd = Sell) in
      case scaled base_amount (AMOUNT_TICK_SIZE cfg) of
        Inl err \<Rightarrow> (Inl err, st)
      | Inr base_amount_scaled \<Rightarrow>
          (case scaled price (PRICE_TICK_SIZE cfg) of
             Inl err \<Rightarrow> (Inl err, st)
           | Inr price_scaled \<Rightarrow>
               let st1 = st\<lparr>transport_calls := transport_calls st @
                           [CreateOrder (MARKET_ID cfg) order_id base_amount_scaled price_scaled
                              is_ask (sd = Sell)]\<rparr>
               in (case resp of
                     Raised \<Rightarrow> (Inr False, st1)
                   | Err \<Rightarrow> (Inr False, st1)
                   | Ack \<Rightarrow> (Inr True, st1\<lparr>current_order_id := Some order_id,
                                            exchange_orders := exchange_orders st1 @ [order_id]\<rparr>))))"

text \<open>The four \<^verbatim>\<open>logger\<close> calls of \<^verbatim>\<open>cancel_order\<close>.\<close>

datatype cancel_log =
    Cancelling_all_orders_was_targeting nat
  | Error_cancelling_all_orders
  | Successfully_cancelled_all_orders
  | Exception_in_cancel_order

definition cancel_order :: "response \<Rightarrow> nat \<Rightarrow> bot_state \<Rightarrow> bool \<times> bot_state \<times> cancel_log list" where
  "cancel_order resp order_id st =
     (let st1 = st\<lparr>transport_calls := transport_calls st @ [CancelAllOrders]\<rparr> in
      case resp of
        Raised \<Rightarrow>
          (False, st1, [Cancelling_all_orders_was_targeting order_id, Exception_in_cancel_order])
      | Err \<Rightarrow>
          (False, st1, [Cancelling_all_orders_was_targeting order_id, Error_cancelling_all_orders])
      | Ack \<Rightarrow>
          (True, st1\<lparr>current_order_id := None, exchange_orders := []\<rparr>,
           [Cancelling_all_orders_was_targeting order_id, Successfully_cancelled_all_orders]))"

section \<open>Order lifecycle controller: \<^verbatim>\<open>market_making_loop\<close>\<close>

text \<open>
  One iteration of the loop is three steps, cut at the points where the loop calls the
  transport: the price check (to the cancel on a price change), the quote (sizing and
  placement), and the timeout (cancel, then the side flip). A step's inputs are what the
  loop reads from outside in that step.
\<close>

record env =
  ws_healthy :: bool
  ws_restarted :: bool
  mid_read :: "real option"
  clock :: real
  files :: "string \<Rightarrow> file_state"
  capital_read :: "pyfloat option"
  position_read :: real
  new_order_id :: nat
  transport :: response

datatype pc = AtTop | AtQuote real pyfloat | AtTimeout real

text \<open>
  \<^verbatim>\<open>last_mid_price is None or abs(mid - last) / last > 0.001\<close>; a float division
  by zero raises.
\<close>

definition price_changed :: "real option \<Rightarrow> real \<Rightarrow> py_error + bool" where
  "price_changed last_mid current_mid_price =
     (case last_mid of
        None \<Rightarrow> Inr True
      | Some l \<Rightarrow>
          if l = 0 then Inl ZeroDivisionError
          else Inr (0.001 < \<bar>current_mid_price - l\<bar> / l))"

definition loop_top ::
  "(string \<Rightarrow> pyfloat option) \<Rightarrow> config \<Rightarrow> env \<Rightarrow> bot_state \<Rightarrow> pc \<times> bot_state" where
  "loop_top sf cfg e st =
     (if \<not> ws_healthy e \<and> \<not> ws_restarted e then (AtTop, st)
      else case mid_read e of
        None \<Rightarrow> (AtTop, st)
      | Some current_mid_price \<Rightarrow>
          (case price_changed (last_mid_price st) current_mid_price of
             Inl err \<Rightarrow> (AtTop, st)
           | Inr changed \<Rightarrow>
               (case calculate_order_price sf cfg (clock e) (files e) current_mid_price
                       (order_side st) st of
                  (Inl err, st1) \<Rightarrow> (AtTop, st1)
                | (Inr None, st1) \<Rightarrow> (AtTop, st1)
                | (Inr (Some order_price), st1) \<Rightarrow>
                    (AtQuote current_mid_price order_price,
                     (case current_order_id st1 of
                        Some oid \<Rightarrow>
                          if changed then fst (snd (cancel_order (transport e) oid st1))
                          else st1
                      | None \<Rightarrow> st1)))))"

text \<open>
  The size of the next order (lines 548 to 573), for any float the mid price may be: on
  the sell side the whole inventory when it is worth at least 15 dollars, else the
  initial \<^verbatim>\<open>base_amt = 0\<close>. The order is placed when \<^verbatim>\<open>base_amt > 0\<close>, which is
  False for 0 and for NaN.
\<close>

definition sell_amount :: "real \<Rightarrow> pyfloat \<Rightarrow> pyfloat" where
  "sell_amount current_position_size current_mid_price =
     (if 0 < current_position_size then
        (let position_value_usd = pf_mul (Fin current_position_size) current_mid_price in
         if pf_le (Fin 15.0) position_value_usd then Fin current_position_size else Fin 0)
      else Fin 0)"

datatype quote_decision = OrderOutstanding | PlaceOrder pyfloat | SkipZeroSize

definition quote_decision :: "config \<Rightarrow> env \<Rightarrow> pyfloat \<Rightarrow> bot_state \<Rightarrow> quote_decision" where
  "quote_decision cfg e current_mid_price st =
     (case current_order_id st of
        Some oid \<Rightarrow> OrderOutstanding
      | None \<Rightarrow>
          let base_amt =
                (if order_side st = Buy
                 then calculate_dynamic_base_amount cfg (capital_read e) (Some current_mid_price)
                 else sell_amount (position_read e) current_mid_price)
          in if pf_less (Fin 0) base_amt then PlaceOrder base_amt else SkipZeroSize)"

definition loop_quote ::
  "config \<Rightarrow> env \<Rightarrow> real \<Rightarrow> pyfloat \<Rightarrow> bot_state \<Rightarrow> pc \<times> bot_state" where
  "loop_quote cfg e current_mid_price order_price st =
     (case quote_decision cfg e (Fin current_mid_price) st of
        OrderOutstanding \<Rightarrow> (AtTimeout current_mid_price, st)
      | SkipZeroSize \<Rightarrow> (AtTimeout current_mid_price, st)
      | PlaceOrder base_amt \<Rightarrow>
          (case place_order (transport e) cfg (order_side st) order_price (new_order_id e)
                  base_amt (st\<lparr>last_order_base_amount := base_amt\<rparr>) of
             (Inl err, st1) \<Rightarrow> (AtTop, st1)
           | (Inr ok, st1) \<Rightarrow>
               if \<not> ok then (AtTop, st1)
               else (AtTimeout current_mid_price,
                     st1\<lparr>last_mid_price := Some current_mid_price\<rparr>)))"

text \<open>
  The side flip at the reconciliation point. \<^verbatim>\<open>current_position_size\<close> is the
  value the account stream left; \<^verbatim>\<open>current_mid_price\<close> is the local of this
  iteration.
\<close>

definition side_flip :: "real \<Rightarrow> real \<Rightarrow> bot_state \<Rightarrow> bot_state" where
  "side_flip current_position_size current_mid_price st =
     (let position_value_usd =
            (if current_mid_price \<noteq> 0 then current_position_size * current_mid_price else 0)
      in
      if order_side st = Buy \<and> 0 < current_position_size
        then st\<lparr>order_side := Sell\<rparr>
      else if order_side st = Sell \<and> \<bar>current_position_size\<bar> < 0.000000001
        then st\<lparr>order_side := Buy, last_order_base_amount := Fin 0\<rparr>
      else if order_side st = Sell \<and> 0 < current_position_size \<and> position_value_usd < 15.0
        then st\<lparr>order_side := Buy\<rparr>
      else st)"

definition loop_timeout :: "env \<Rightarrow> real \<Rightarrow> bot_state \<Rightarrow> pc \<times> bot_state" where
  "loop_timeout e current_mid_price st =
     (let st1 = (case current_order_id st of
                   Some oid \<Rightarrow> fst (snd (cancel_order (transport e) oid st))
                 | None \<Rightarrow> st)
      in (AtTop, side_flip (position_read e) current_mid_price st1))"

fun loop_step ::
  "(string \<Rightarrow> pyfloat option) \<Rightarrow> config \<Rightarrow> env \<Rightarrow> pc \<times> bot_state \<Rightarrow> pc \<times> bot_state" where
  "loop_step sf cfg e (AtTop, st) = loop_top sf cfg e st"
| "loop_step sf cfg e (AtQuote m p, st) = loop_quote cfg e m p st"
| "loop_step sf cfg e (AtTimeout m, st) = loop_timeout e m st"

text \<open>
  The states the loop starts in: the module's initial values with the side \<^verbatim>\<open>main\<close>
  chose, after the start-up cancel-all; or, when \<^verbatim>\<open>main\<close> placed a closing order
  (\<^verbatim>\<open>close_long_position\<close>), with that order recorded.
\<close>

definition initial_state :: "side \<Rightarrow> bot_state" where
  "initial_state sd =
     \<lparr>current_order_id = None, last_mid_price = None, order_side = sd,
      last_order_base_amount = Fin 0, avellaneda_params = None, last_avellaneda_update = 0,
      exchange_orders = [], transport_calls = [CancelAllOrders]\<rparr>"

definition closing_state :: "transport_call \<Rightarrow> nat \<Rightarrow> real \<Rightarrow> bot_state" where
  "closing_state c oid mid =
     (initial_state Sell)\<lparr>current_order_id := Some oid, last_mid_price := Some mid,
        exchange_orders := [oid], transport_calls := [CancelAllOrders, c]\<rparr>"

inductive reachable ::
  "(string \<Rightarrow> pyfloat option) \<Rightarrow> config \<Rightarrow> pc \<times> bot_state \<Rightarrow> bool"
  for sf :: "string \<Rightarrow> pyfloat option" and cfg :: config where
  start: "reachable sf cfg (AtTop, initial_state sd)"
| start_closing: "reachable sf cfg (AtTop, closing_state c oid mid)"
| step: "reachable sf cfg c \<Longrightarrow> reachable sf cfg (loop_step sf cfg e c)"

text \<open>The transport calls a step added.\<close>

definition new_calls :: "bot_state \<Rightarrow> bot_state \<Rightarrow> transport_call list" where
  "new_calls st st' = drop (length (transport_calls st)) (transport_calls st')"

fun is_create :: "transport_call \<Rightarrow> bool" where
  "is_create (CreateOrder m i a p k r) = True"
| "is_create CancelAllOrders = False"

section \<open>Invariant of the controller\<close>

text \<open>
  The recorded order id and the account's open orders agree: none recorded and none
  open, or one recorded and exactly that one open.
\<close>

definition order_inv :: "bot_state \<Rightarrow> bool" where
  "order_inv st =
     (exchange_orders st = (case current_order_id st of None \<Rightarrow> [] | Some oid \<Rightarrow> [oid]))"

text \<open>The loader and the pricing function change only the two parameter-cache fields.\<close>

definition params_frame :: "bot_state \<Rightarrow> bot_state \<Rightarrow> bool" where
  "params_frame st st1 =
     (st1 = st\<lparr>avellaneda_params := avellaneda_params st1,
              last_avellaneda_update := last_avellaneda_update st1\<rparr>)"

text \<open>
  What one step guarantees: the invariant after it; a \<^verbatim>\<open>create_order\<close> call is
  made only when no order id is recorded and none is open, and when acknowledged it
  records exactly the new id; an acknowledged cancel clears the record; the step never
  replaces a recorded id by another one.
\<close>

definition step_ok :: "env \<Rightarrow> bot_state \<Rightarrow> bot_state \<Rightarrow> bool" where
  "step_ok e st st' =
     (order_inv st'
      \<and> (\<forall>c \<in> set (new_calls st st'). is_create c \<longrightarrow>
            current_order_id st = None \<and> exchange_orders st = []
            \<and> (transport e = Ack \<longrightarrow>
                  current_order_id st' = Some (new_order_id e)
                  \<and> exchange_orders st' = [new_order_id e]))
      \<and> (CancelAllOrders \<in> set (new_calls st st') \<and> transport e = Ack \<longrightarrow>
            current_order_id st' = None \<and> exchange_orders st' = [])
      \<and> (\<forall>a b. current_order_id st = Some a \<and> current_order_id st' = Some b \<longrightarrow> a = b))"

section \<open>Notions used to state the properties of the pricing engine\<close>

text \<open>
  The first candidate path that exists, and when the loader goes to the files at all:
  the cache is empty or the refresh interval has passed.
\<close>

definition first_existing :: "(string \<Rightarrow> file_state) \<Rightarrow> string list \<Rightarrow> string option" where
  "first_existing fs ps = find (\<lambda>p. fs p \<noteq> FileNotFound) ps"

definition cache_stale :: "real \<Rightarrow> bot_state \<Rightarrow> bool" where
  "cache_stale now st =
     (avellaneda_params st = None
      \<or> AVELLANEDA_REFRESH_INTERVAL \<le> now - last_avellaneda_update st)"

text \<open>The cache holds nothing, or data that passed the loader's checks.\<close>

definition cache_valid :: "(string \<Rightarrow> pyfloat option) \<Rightarrow> bot_state \<Rightarrow> bool" where
  "cache_valid sf st =
     (case avellaneda_params st of None \<Rightarrow> True | Some params \<Rightarrow> params_accepted sf params)"

text \<open>
  The invalid files as the specification lists them: invalid JSON; no
  \<^verbatim>\<open>limit_orders\<close> object; an offset that is negative, NaN, infinite, or
  non-numeric. The specification gives the file the shape
  \<^verbatim>\<open>{limit_orders: {delta_a: number, delta_b: number}}\<close>, so non-numeric is: absent,
  or any JSON value that is not a number (null, a boolean, a string, a list, an object).
\<close>

definition spec_lacks_limit_orders :: "json \<Rightarrow> bool" where
  "spec_lacks_limit_orders data =
     (case data of
        JDict kvs \<Rightarrow>
          (case map_of kvs ''limit_orders'' of Some (JDict lo) \<Rightarrow> False | _ \<Rightarrow> True)
      | _ \<Rightarrow> True)"

fun spec_bad_number :: "json option \<Rightarrow> bool" where
  "spec_bad_number (Some (JInt n)) = (n < 0)"
| "spec_bad_number (Some (JFloat (Fin x))) = (x < 0)"
| "spec_bad_number (Some (JFloat special)) = True"
| "spec_bad_number other = True"

definition spec_bad_delta :: "json \<Rightarrow> string \<Rightarrow> bool" where
  "spec_bad_delta data k =
     (case data of
        JDict kvs \<Rightarrow>
          (case map_of kvs ''limit_orders'' of
             Some (JDict lo) \<Rightarrow> spec_bad_number (map_of lo k)
           | _ \<Rightarrow> False)
      | _ \<Rightarrow> False)"

definition spec_invalid_file :: "file_state \<Rightarrow> bool" where
  "spec_invalid_file f =
     (case f of
        InvalidJSON \<Rightarrow> True
      | Contents data \<Rightarrow>
          spec_lacks_limit_orders data \<or> spec_bad_delta data ''delta_a''
          \<or> spec_bad_delta data ''delta_b''
      | _ \<Rightarrow> False)"

text \<open>
  The files the loader rejects. An offset passes when \<^verbatim>\<open>float()\<close> converts it to a
  finite float that is not negative: that holds for a number in range, and also for a
  boolean (1.0 or 0.0) and for a string the interpreter reads as such a float. An offset
  is rejected when it is absent or does not pass.
\<close>

definition float_accepts :: "(string \<Rightarrow> pyfloat option) \<Rightarrow> json \<Rightarrow> bool" where
  "float_accepts sf v =
     (case py_float sf v of
        Inl e \<Rightarrow> False
      | Inr (Fin x) \<Rightarrow> 0 \<le> x
      | Inr special \<Rightarrow> False)"

definition rejected_delta :: "(string \<Rightarrow> pyfloat option) \<Rightarrow> json \<Rightarrow> string \<Rightarrow> bool" where
  "rejected_delta sf data k =
     (case data of
        JDict kvs \<Rightarrow>
          (case map_of kvs ''limit_orders'' of
             Some (JDict lo) \<Rightarrow>
               (case map_of lo k of None \<Rightarrow> True | Some v \<Rightarrow> \<not> float_accepts sf v)
           | _ \<Rightarrow> False)
      | _ \<Rightarrow> False)"

text \<open>
  An offset that is not a JSON number and is converted all the same: a boolean, or a
  string read as a finite float that is not negative.
\<close>

fun converted_non_number :: "(string \<Rightarrow> pyfloat option) \<Rightarrow> json option \<Rightarrow> bool" where
  "converted_non_number sf (Some (JBool b)) = True"
| "converted_non_number sf (Some (JStr s)) = float_accepts sf (JStr s)"
| "converted_non_number sf other = False"

definition has_converted_offset :: "(string \<Rightarrow> pyfloat option) \<Rightarrow> file_state \<Rightarrow> bool" where
  "has_converted_offset sf f =
     (case f of
        Contents (JDict kvs) \<Rightarrow>
          (case map_of kvs ''limit_orders'' of
             Some (JDict lo) \<Rightarrow>
               converted_non_number sf (map_of lo ''delta_a'')
               \<or> converted_non_number sf (map_of lo ''delta_b'')
           | _ \<Rightarrow> False)
      | _ \<Rightarrow> False)"

definition rejected_file :: "(string \<Rightarrow> pyfloat option) \<Rightarrow> file_state \<Rightarrow> bool" where
  "rejected_file sf f =
     (case f of
        InvalidJSON \<Rightarrow> True
      | Contents data \<Rightarrow>
          spec_lacks_limit_orders data \<or> rejected_delta sf data ''delta_a''
          \<or> rejected_delta sf data ''delta_b''
      | _ \<Rightarrow> False)"

text \<open>What pricing gives without parameters: no-quote in strict mode, else the static spread.\<close>

definition static_quote :: "config \<Rightarrow> real \<Rightarrow> side \<Rightarrow> pyfloat option" where
  "static_quote cfg mid sd =
     (if REQUIRE_PARAMS cfg then None
      else Some (Fin (if sd = Buy then mid * (1 - 0.00035) else mid * (1 + 0.00035))))"

text \<open>
  A value the update reports: \<^verbatim>\<open>float(stats.get(k, 0))\<close>, or the exception it
  raises.
\<close>

definition reported :: "(string \<Rightarrow> pyfloat option) \<Rightarrow> json \<Rightarrow> string \<Rightarrow> py_error + pyfloat" where
  "reported sf stats k =
     (case dict_get stats k (JInt 0) of Inl e \<Rightarrow> Inl e | Inr v \<Rightarrow> py_float sf v)"

section \<open>Concrete inputs\<close>

definition example_config :: config where
  "example_config =
     \<lparr>USE_DYNAMIC_SIZING = True, REQUIRE_PARAMS = False, PARAMS_DIR = ''params'',
      MARKET_SYMBOL = ''PAXG'', ACCOUNT_INDEX = 0, MARKET_ID = 1,
      PRICE_TICK_SIZE = 0.01, AMOUNT_TICK_SIZE = 0.0001\<rparr>"

definition no_files :: "string \<Rightarrow> file_state" where
  "no_files p = FileNotFound"

definition no_str_float :: "string \<Rightarrow> pyfloat option" where
  "no_str_float s = None"

definition example_env :: env where
  "example_env =
     \<lparr>ws_healthy = True, ws_restarted = True, mid_read = Some 100, clock = 1000,
      files = no_files, capital_read = Some (Fin 1000), position_read = 0,
      new_order_id = 424242, transport = Ack\<rparr>"


definition quoted_state :: "side \<Rightarrow> bot_state" where
  "quoted_state sd =
     (initial_state sd)\<lparr>current_order_id := Some 7, last_mid_price := Some 100,
        exchange_orders := [7]\<rparr>"

text \<open>Parameter files and file systems.\<close>

definition files_of :: "(string \<times> file_state) list \<Rightarrow> string \<Rightarrow> file_state" where
  "files_of l p = (case map_of l p of None \<Rightarrow> FileNotFound | Some f \<Rightarrow> f)"

definition params_json :: "json \<Rightarrow> json \<Rightarrow> json" where
  "params_json da db = JDict [(''limit_orders'', JDict [(''delta_a'', da), (''delta_b'', db)])]"

definition valid_params :: json where
  "valid_params = params_json (JFloat (Fin 0.3)) (JFloat (Fin 0.2))"

definition params_path :: string where
  "params_path = ''params/avellaneda_parameters_PAXG.json''"

definition one_file :: "file_state \<Rightarrow> string \<Rightarrow> file_state" where
  "one_file f = files_of [(params_path, f)]"

definition later_valid_files :: "file_state \<Rightarrow> string \<Rightarrow> file_state" where
  "later_valid_files f =
     files_of [(params_path, f), (''avellaneda_parameters_PAXG.json'', Contents valid_params)]"

definition skipping_files :: "string \<Rightarrow> file_state" where
  "skipping_files =
     files_of [(''avellaneda_parameters_PAXG.json'', Contents valid_params),
               (''TRADER/avellaneda_parameters_PAXG.json'', InvalidJSON)]"

definition example_str_float :: "string \<Rightarrow> pyfloat option" where
  "example_str_float s = (if s = ''0.3'' then Some (Fin 0.3) else None)"

definition boolean_params :: json where
  "boolean_params = params_json (JBool True) (JFloat (Fin 0.2))"

definition string_params :: json where
  "string_params = params_json (JStr ''0.3'') (JFloat (Fin 0.2))"

definition cached_state :: bot_state where
  "cached_state =
     (initial_state Buy)\<lparr>avellaneda_params := Some valid_params, last_avellaneda_update := 990\<rparr>"

definition loaded_state :: bot_state where
  "loaded_state =
     (initial_state Buy)\<lparr>avellaneda_params := Some valid_params, last_avellaneda_update := 1000\<rparr>"

text \<open>
  An empty capital cache; an update whose balance is the JSON literal Infinity; updates
  whose balance is a JSON integer of 401 digits, negative or positive.
\<close>

definition empty_capital :: capital_state where
  "empty_capital =
     \<lparr>available_capital = None, portfolio_value = None, account_state_received = False\<rparr>"

definition infinite_balance_stats :: json where
  "infinite_balance_stats =
     JDict [(''available_balance'', JFloat PosInf), (''portfolio_value'', JInt 1)]"

definition huge_balance_stats :: "int \<Rightarrow> json" where
  "huge_balance_stats sign =
     JDict [(''available_balance'', JInt (sign * 10 ^ 400)), (''portfolio_value'', JInt 1)]"

section \<open>Capital and size calculator: properties\<close>

text \<open>
  C7. With dynamic sizing on, a strictly positive available capital and a strictly
  positive mid price, the size is max(capital * (1 - 0.01) * 0.99 / mid, 0.001): for
  finite values in real arithmetic, and for every pair of floats above 0 as Python
  evaluates that expression. When dynamic sizing is off, or the capital is None or not
  positive, or the mid price is None or not above 0, it is the static amount 0.047.
\<close>

theorem calculate_dynamic_base_amount_spec:
  "(USE_DYNAMIC_SIZING cfg \<and> 0 < c \<and> 0 < m \<longrightarrow>
      calculate_dynamic_base_amount cfg (Some (Fin c)) (Some (Fin m))
        = Fin (max (c * (1 - 0.01) * 0.99 / m) 0.001))
   \<and> (USE_DYNAMIC_SIZING cfg \<and> pf_less (Fin 0) fc \<and> pf_less (Fin 0) fm \<longrightarrow>
      calculate_dynamic_base_amount cfg (Some fc) (Some fm)
        = py_max (pf_div (pf_mul (pf_mul fc (Fin (1 - 0.01))) (Fin 0.99)) fm) (Fin 0.001))
   \<and> (\<not> USE_DYNAMIC_SIZING cfg \<or> capital = None
         \<or> (capital = Some fc' \<and> pf_le fc' (Fin 0))
         \<or> mid = None \<or> (mid = Some fm' \<and> \<not> pf_less (Fin 0) fm') \<longrightarrow>
      calculate_dynamic_base_amount cfg capital mid = Fin 0.047)"
proof -
  have pos: "pf_less (Fin 0) x \<Longrightarrow> \<not> pf_le x (Fin 0) \<and> x \<noteq> Fin 0" for x
    by (cases x) (auto simp: pf_le_def)
  have 1: "USE_DYNAMIC_SIZING cfg \<and> pf_less (Fin 0) fc \<and> pf_less (Fin 0) fm \<longrightarrow>
      calculate_dynamic_base_amount cfg (Some fc) (Some fm)
        = py_max (pf_div (pf_mul (pf_mul fc (Fin (1 - 0.01))) (Fin 0.99)) fm) (Fin 0.001)"
    for fc fm
    using pos [of fc] pos [of fm]
    by (simp add: calculate_dynamic_base_amount_def SAFETY_MARGIN_PERCENT_def
          CAPITAL_USAGE_PERCENT_def Let_def)
  have 2: "USE_DYNAMIC_SIZING cfg \<and> 0 < c \<and> 0 < m \<longrightarrow>
      calculate_dynamic_base_amount cfg (Some (Fin c)) (Some (Fin m))
        = Fin (max (c * (1 - 0.01) * 0.99 / m) 0.001)"
    using 1 [of "Fin c" "Fin m"] by (auto simp: py_max_def max_def)
  have 3: "\<not> USE_DYNAMIC_SIZING cfg \<or> capital = None
         \<or> (capital = Some fc' \<and> pf_le fc' (Fin 0))
         \<or> mid = None \<or> (mid = Some fm' \<and> \<not> pf_less (Fin 0) fm') \<longrightarrow>
      calculate_dynamic_base_amount cfg capital mid = Fin 0.047"
    by (auto simp: calculate_dynamic_base_amount_def BASE_AMOUNT_def Let_def
          split: option.splits)
  from 1 2 3 show ?thesis by blast
qed

text \<open>
  The spec's example: capital 1000 and mid 100 give 9.801 units; an infinite capital
  gives an infinite size; each fallback case gives 0.047.
\<close>

theorem calculate_dynamic_base_amount_spec_witness:
  "calculate_dynamic_base_amount example_config (Some (Fin 1000)) (Some (Fin 100)) = Fin 9.801
   \<and> calculate_dynamic_base_amount example_config (Some PosInf) (Some (Fin 100)) = PosInf
   \<and> calculate_dynamic_base_amount example_config None (Some (Fin 100)) = Fin 0.047
   \<and> calculate_dynamic_base_amount example_config (Some (Fin (-1))) (Some (Fin 100)) = Fin 0.047
   \<and> calculate_dynamic_base_amount example_config (Some (Fin 1000)) (Some (Fin 0)) = Fin 0.047
   \<and> calculate_dynamic_base_amount example_config (Some (Fin 1000)) (Some NaN) = Fin 0.047
   \<and> calculate_dynamic_base_amount (example_config\<lparr>USE_DYNAMIC_SIZING := False\<rparr>)
        (Some (Fin 1000)) (Some (Fin 100)) = Fin 0.047"
  using calculate_dynamic_base_amount_spec
      [of example_config 1000 100 PosInf "Fin 100" None NaN "Some (Fin 100)" NaN]
    calculate_dynamic_base_amount_spec
      [of example_config 1000 100 PosInf "Fin 100" "Some (Fin (-1))" "Fin (-1)" "Some (Fin 100)" NaN]
    calculate_dynamic_base_amount_spec
      [of example_config 1000 100 PosInf "Fin 100" "Some (Fin 1000)" NaN "Some (Fin 0)" "Fin 0"]
    calculate_dynamic_base_amount_spec
      [of example_config 1000 100 PosInf "Fin 100" "Some (Fin 1000)" NaN "Some NaN" NaN]
    calculate_dynamic_base_amount_spec
      [of "example_config\<lparr>USE_DYNAMIC_SIZING := False\<rparr>" 1000 100 PosInf "Fin 100"
         "Some (Fin 1000)" NaN "Some (Fin 100)" NaN]
  by (simp add: example_config_def py_max_def inf_times_def pf_le_def)

text \<open>
  The result is NaN in two cases only, NaN capital or infinite capital with an infinite
  mid price (dynamic sizing on, mid price above 0); otherwise it is at least 0.001.
\<close>

lemma sizing_result:
  "calculate_dynamic_base_amount cfg capital mid = NaN
     \<and> USE_DYNAMIC_SIZING cfg
     \<and> (\<exists>fm. mid = Some fm \<and> pf_less (Fin 0) fm
           \<and> (capital = Some NaN \<or> (capital = Some PosInf \<and> fm = PosInf)))
   \<or> pf_le (Fin 0.001) (calculate_dynamic_base_amount cfg capital mid)"
proof (cases "USE_DYNAMIC_SIZING cfg \<and> (\<exists>fc fm. capital = Some fc \<and> mid = Some fm
          \<and> \<not> pf_le fc (Fin 0) \<and> fm \<noteq> Fin 0 \<and> pf_less (Fin 0) fm)")
  case False
  then have "calculate_dynamic_base_amount cfg capital mid = Fin BASE_AMOUNT"
    by (auto simp: calculate_dynamic_base_amount_def Let_def split: option.splits)
  then show ?thesis by (simp add: BASE_AMOUNT_def pf_le_def)
next
  case True
  then obtain fc fm where h: "USE_DYNAMIC_SIZING cfg" "capital = Some fc" "mid = Some fm"
    "\<not> pf_le fc (Fin 0)" "fm \<noteq> Fin 0" "pf_less (Fin 0) fm" by blast
  then have r: "calculate_dynamic_base_amount cfg capital mid
      = py_max (pf_div (pf_mul (pf_mul fc (Fin (1 - SAFETY_MARGIN_PERCENT)))
                  (Fin CAPITAL_USAGE_PERCENT)) fm) (Fin 0.001)"
    by (simp add: calculate_dynamic_base_amount_def Let_def)
  from h(4,6) show ?thesis
    unfolding r using h(1,2,3)
    by (cases fc; cases fm)
      (auto simp: py_max_def pf_le_def inf_times_def SAFETY_MARGIN_PERCENT_def
         CAPITAL_USAGE_PERCENT_def)
qed

text \<open>
  C10, as the code has it. The accumulating-side size is NaN exactly when dynamic
  sizing is on, the mid price is above 0, and the capital is NaN or the capital and the mid
  price are both +Infinity. In every other case, whatever the capital, the mid price and
  the toggle, it is strictly positive and at least min(0.001, 0.047). On the Buy side the
  quote step takes the zero-size skip branch exactly when no order is outstanding and
  the size is NaN; so it never does when the capital is not NaN and the capital and the
  mid price are not both +Infinity.
\<close>

theorem buy_size_positive_unless_nan:
  "(calculate_dynamic_base_amount cfg capital mid = NaN)
      = (USE_DYNAMIC_SIZING cfg
         \<and> (\<exists>fm. mid = Some fm \<and> pf_less (Fin 0) fm
               \<and> (capital = Some NaN \<or> (capital = Some PosInf \<and> fm = PosInf))))
   \<and> (calculate_dynamic_base_amount cfg capital mid \<noteq> NaN \<longrightarrow>
         pf_less (Fin 0) (calculate_dynamic_base_amount cfg capital mid)
         \<and> pf_le (Fin (min 0.001 0.047)) (calculate_dynamic_base_amount cfg capital mid))
   \<and> (order_side st = Buy \<longrightarrow>
         (quote_decision cfg e fmid st = SkipZeroSize)
           = (current_order_id st = None
              \<and> calculate_dynamic_base_amount cfg (capital_read e) (Some fmid) = NaN))
   \<and> (order_side st = Buy \<and> capital_read e \<noteq> Some NaN
         \<and> \<not> (capital_read e = Some PosInf \<and> fmid = PosInf) \<longrightarrow>
         quote_decision cfg e fmid st \<noteq> SkipZeroSize)"
proof -
  have le: "pf_le (Fin 0.001) x \<Longrightarrow> x \<noteq> NaN \<and> pf_less (Fin 0) x \<and> pf_le (Fin (min 0.001 0.047)) x"
    for x
    by (cases x) (auto simp: pf_le_def)
  have nan_if: "calculate_dynamic_base_amount cfg capital mid = NaN"
    if "USE_DYNAMIC_SIZING cfg" "mid = Some fm" "pf_less (Fin 0) fm"
      "capital = Some NaN \<or> (capital = Some PosInf \<and> fm = PosInf)" for fm
    using that
    by (cases fm)
      (auto simp: calculate_dynamic_base_amount_def pf_le_def py_max_def inf_times_def
         SAFETY_MARGIN_PERCENT_def CAPITAL_USAGE_PERCENT_def Let_def)
  have 1: "(calculate_dynamic_base_amount cfg capital mid = NaN)
      = (USE_DYNAMIC_SIZING cfg
         \<and> (\<exists>fm. mid = Some fm \<and> pf_less (Fin 0) fm
               \<and> (capital = Some NaN \<or> (capital = Some PosInf \<and> fm = PosInf))))"
    using sizing_result [of cfg capital mid] le nan_if by blast
  have 2: "calculate_dynamic_base_amount cfg capital mid \<noteq> NaN \<longrightarrow>
         pf_less (Fin 0) (calculate_dynamic_base_amount cfg capital mid)
         \<and> pf_le (Fin (min 0.001 0.047)) (calculate_dynamic_base_amount cfg capital mid)"
    using sizing_result [of cfg capital mid] le by blast
  have skip: "(\<not> pf_less (Fin 0) (calculate_dynamic_base_amount cfg c m))
                = (calculate_dynamic_base_amount cfg c m = NaN)" for c m
    using sizing_result [of cfg c m] le [of "calculate_dynamic_base_amount cfg c m"] by auto
  have 3: "order_side st = Buy \<longrightarrow>
         (quote_decision cfg e fmid st = SkipZeroSize)
           = (current_order_id st = None
              \<and> calculate_dynamic_base_amount cfg (capital_read e) (Some fmid) = NaN)"
    using skip [of "capital_read e" "Some fmid"]
    by (auto simp: quote_decision_def Let_def split: option.splits)
  have 4: "order_side st = Buy \<and> capital_read e \<noteq> Some NaN
         \<and> \<not> (capital_read e = Some PosInf \<and> fmid = PosInf) \<longrightarrow>
         quote_decision cfg e fmid st \<noteq> SkipZeroSize"
    using 3 sizing_result [of cfg "capital_read e" "Some fmid"]
      le [of "calculate_dynamic_base_amount cfg (capital_read e) (Some fmid)"]
    by auto
  from 1 2 3 4 show ?thesis by blast
qed

text \<open>
  On the Buy side with no capital known the static amount is placed, and with an
  infinite capital at a finite mid price an infinite size is passed on; on the Sell side
  with no inventory the zero-size branch is taken.
\<close>

theorem buy_size_positive_unless_nan_witness:
  "calculate_dynamic_base_amount example_config None None = Fin 0.047
   \<and> quote_decision example_config (example_env\<lparr>capital_read := None\<rparr>) (Fin 100)
        (initial_state Buy) = PlaceOrder (Fin 0.047)
   \<and> quote_decision example_config example_env (Fin 100) (initial_state Buy)
        = PlaceOrder (Fin 9.801)
   \<and> quote_decision example_config (example_env\<lparr>capital_read := Some PosInf\<rparr>) (Fin 100)
        (initial_state Buy) = PlaceOrder PosInf
   \<and> quote_decision example_config example_env (Fin 100) (initial_state Sell) = SkipZeroSize"
  using buy_size_positive_unless_nan
    [of example_config None None "initial_state Buy" "example_env\<lparr>capital_read := None\<rparr>"
       "Fin 100"]
  by (simp add: quote_decision_def calculate_dynamic_base_amount_def BASE_AMOUNT_def
        SAFETY_MARGIN_PERCENT_def CAPITAL_USAGE_PERCENT_def py_max_def pf_le_def inf_times_def
        sell_amount_def initial_state_def example_env_def example_config_def)

text \<open>
  C10 as stated, for every input. The stats handler accepts an available balance of
  +Infinity (it is above 0) and caches it. With that capital and a mid price of +Infinity
  the size is inf / inf = NaN, \<^verbatim>\<open>max(nan, 0.001)\<close> is NaN and \<^verbatim>\<open>nan > 0\<close> is False:
  the size is not strictly positive and the Buy side takes the zero-size skip branch.
\<close>

theorem infinite_capital_counterexample:
  "snd (on_user_stats_update no_str_float example_config 0 infinite_balance_stats empty_capital)
     = \<lparr>available_capital = Some PosInf, portfolio_value = Some (Fin 1),
        account_state_received = True\<rparr>
   \<and> calculate_dynamic_base_amount example_config (Some PosInf) (Some PosInf) = NaN
   \<and> \<not> pf_less (Fin 0) (calculate_dynamic_base_amount example_config (Some PosInf) (Some PosInf))
   \<and> order_side (initial_state Buy) = Buy
   \<and> quote_decision example_config (example_env\<lparr>capital_read := Some PosInf\<rparr>) PosInf
        (initial_state Buy) = SkipZeroSize"
  by (simp add: on_user_stats_update_def infinite_balance_stats_def empty_capital_def
        quote_decision_def calculate_dynamic_base_amount_def
        SAFETY_MARGIN_PERCENT_def CAPITAL_USAGE_PERCENT_def py_max_def pf_le_def inf_times_def
        initial_state_def example_env_def example_config_def float_overflow_bound_def)

section \<open>Order lifecycle: properties\<close>

lemma load_frame:
  "load_avellaneda_parameters sf cfg now fs st = (ok, st1) \<Longrightarrow> params_frame st st1"
  by (auto simp: load_avellaneda_parameters_def params_frame_def Let_def
        split: if_splits read_result.splits option.splits)

lemma price_frame:
  "calculate_order_price sf cfg now fs mid sd st = (r, st1) \<Longrightarrow> params_frame st st1"
  by (auto simp: calculate_order_price_def split: prod.splits option.splits if_splits sum.splits
        dest: load_frame)

lemma params_frame_fields:
  "params_frame st st1 \<Longrightarrow>
     current_order_id st1 = current_order_id st \<and> exchange_orders st1 = exchange_orders st
     \<and> transport_calls st1 = transport_calls st \<and> order_side st1 = order_side st
     \<and> last_mid_price st1 = last_mid_price st"
  unfolding params_frame_def
  by (metis bot_state.select_convs bot_state.surjective bot_state.update_convs)

lemma cancel_order_effect:
  "cancel_order r oid st = (ok, st', l) \<Longrightarrow>
     transport_calls st' = transport_calls st @ [CancelAllOrders]
     \<and> order_side st' = order_side st
     \<and> (r = Ack \<longrightarrow> ok \<and> current_order_id st' = None \<and> exchange_orders st' = [])
     \<and> (r \<noteq> Ack \<longrightarrow> \<not> ok \<and> current_order_id st' = current_order_id st
           \<and> exchange_orders st' = exchange_orders st)"
  by (cases r) (auto simp: cancel_order_def Let_def)

lemma place_order_effect:
  "place_order r cfg sd price oid amt st = (res, st') \<Longrightarrow>
     order_side st' = order_side st
     \<and> (res = Inr True \<longrightarrow> r = Ack \<and> current_order_id st' = Some oid
           \<and> exchange_orders st' = exchange_orders st @ [oid]
           \<and> (\<exists>c. is_create c \<and> transport_calls st' = transport_calls st @ [c]))
     \<and> (res \<noteq> Inr True \<longrightarrow> current_order_id st' = current_order_id st
           \<and> exchange_orders st' = exchange_orders st
           \<and> (transport_calls st' = transport_calls st
                \<or> (r \<noteq> Ack \<and> (\<exists>c. is_create c \<and> transport_calls st' = transport_calls st @ [c]))))"
  by (cases r) (auto simp: place_order_def Let_def split: sum.splits)

lemma side_flip_frame:
  "current_order_id (side_flip pos mid st) = current_order_id st
   \<and> exchange_orders (side_flip pos mid st) = exchange_orders st
   \<and> transport_calls (side_flip pos mid st) = transport_calls st"
  by (simp add: side_flip_def Let_def)

lemma loop_top_cases:
  assumes "loop_top sf cfg e st = (p', st')"
  shows "(transport_calls st' = transport_calls st
            \<and> current_order_id st' = current_order_id st
            \<and> exchange_orders st' = exchange_orders st)
         \<or> (\<exists>oid. current_order_id st = Some oid
               \<and> transport_calls st' = transport_calls st @ [CancelAllOrders]
               \<and> (if transport e = Ack
                   then current_order_id st' = None \<and> exchange_orders st' = []
                   else current_order_id st' = current_order_id st
                        \<and> exchange_orders st' = exchange_orders st))"
  using assms
  by (auto simp: loop_top_def cancel_order_def Let_def
        split: if_splits option.splits sum.splits prod.splits response.splits
        dest!: price_frame params_frame_fields)

lemma loop_top_ok:
  assumes "order_inv st" and "loop_top sf cfg e st = (p', st')"
  shows "step_ok e st st'"
  using assms(1) loop_top_cases [OF assms(2)]
  by (auto simp: step_ok_def order_inv_def new_calls_def split: if_splits)

lemma loop_timeout_ok:
  assumes "order_inv st" and "loop_timeout e m st = (p', st')"
  shows "step_ok e st st'"
proof (cases "current_order_id st")
  case None
  with assms show ?thesis
    by (auto simp: loop_timeout_def step_ok_def order_inv_def new_calls_def side_flip_frame)
next
  case (Some oid)
  obtain ok st1 l where c: "cancel_order (transport e) oid st = (ok, st1, l)"
    by (cases "cancel_order (transport e) oid st") auto
  with Some assms(2) have st': "st' = side_flip (position_read e) m st1"
    by (auto simp: loop_timeout_def)
  from assms(1) Some cancel_order_effect [OF c] show ?thesis
    unfolding st'
    by (cases "transport e = Ack")
      (auto simp: step_ok_def order_inv_def new_calls_def side_flip_frame)
qed

lemma loop_quote_ok:
  assumes "order_inv st" and "loop_quote cfg e m price st = (p', st')"
  shows "step_ok e st st'"
proof (cases "quote_decision cfg e (Fin m) st")
  case OrderOutstanding
  with assms show ?thesis
    by (auto simp: loop_quote_def step_ok_def new_calls_def)
next
  case SkipZeroSize
  with assms show ?thesis
    by (auto simp: loop_quote_def step_ok_def new_calls_def)
next
  case (PlaceOrder amt)
  then have none: "current_order_id st = None"
    by (auto simp: quote_decision_def Let_def split: option.splits if_splits)
  let ?st0 = "st\<lparr>last_order_base_amount := amt\<rparr>"
  obtain res st1 where p: "place_order (transport e) cfg (order_side st) price (new_order_id e) amt ?st0 = (res, st1)"
    by (cases "place_order (transport e) cfg (order_side st) price (new_order_id e) amt ?st0") auto
  from assms(2) PlaceOrder p have st':
    "(res = Inr True \<and> st' = st1\<lparr>last_mid_price := Some m\<rparr>) \<or> (res \<noteq> Inr True \<and> st' = st1)"
    by (auto simp: loop_quote_def split: sum.splits if_splits)
  from assms(1) none have ex: "exchange_orders st = []"
    by (simp add: order_inv_def)
  from st' place_order_effect [OF p] none ex show ?thesis
    by (auto simp: step_ok_def order_inv_def new_calls_def)
qed

lemma loop_step_ok:
  "order_inv st \<Longrightarrow> loop_step sf cfg e (p, st) = (p', st') \<Longrightarrow> step_ok e st st'"
  by (cases p) (auto dest: loop_top_ok loop_quote_ok loop_timeout_ok)

lemma reachable_inv: "reachable sf cfg c \<Longrightarrow> order_inv (snd c)"
proof (induction rule: reachable.induct)
  case (start sd)
  show ?case by (simp add: order_inv_def initial_state_def)
next
  case (start_closing c oid mid)
  show ?case by (simp add: order_inv_def closing_state_def initial_state_def)
next
  case (step c e)
  obtain p st where c: "c = (p, st)" by (cases c)
  obtain p' st' where s: "loop_step sf cfg e (p, st) = (p', st')"
    by (cases "loop_step sf cfg e (p, st)")
  from step.IH c have "order_inv st" by simp
  from loop_step_ok [OF this s] show ?case
    by (simp add: c s step_ok_def)
qed

text \<open>
  C4. In every reachable state of the loop's step relation at most one order is
  outstanding, and it is the recorded one. A step calls \<^verbatim>\<open>create_order\<close> only from
  a state where no order id is recorded; an acknowledged placement records exactly the
  new id; an acknowledged cancel clears the record; no step replaces a recorded id by a
  second one.
\<close>

theorem single_outstanding_order:
  assumes "reachable sf cfg (p, st)" and "loop_step sf cfg e (p, st) = (p', st')"
  shows "length (exchange_orders st) \<le> 1
    \<and> exchange_orders st = (case current_order_id st of None \<Rightarrow> [] | Some oid \<Rightarrow> [oid])
    \<and> (\<forall>c \<in> set (new_calls st st'). is_create c \<longrightarrow>
          current_order_id st = None \<and> exchange_orders st = []
          \<and> (transport e = Ack \<longrightarrow>
                current_order_id st' = Some (new_order_id e)
                \<and> exchange_orders st' = [new_order_id e]))
    \<and> (CancelAllOrders \<in> set (new_calls st st') \<and> transport e = Ack \<longrightarrow>
          current_order_id st' = None \<and> exchange_orders st' = [])
    \<and> (\<forall>a b. current_order_id st = Some a \<and> current_order_id st' = Some b \<longrightarrow> a = b)"
proof -
  from reachable_inv [OF assms(1)] have inv: "order_inv st" by simp
  then have "length (exchange_orders st) \<le> 1"
    by (simp add: order_inv_def split: option.splits)
  moreover from inv have
    "exchange_orders st = (case current_order_id st of None \<Rightarrow> [] | Some oid \<Rightarrow> [oid])"
    by (simp add: order_inv_def)
  moreover from loop_step_ok [OF inv assms(2)] have "step_ok e st st'" .
  ultimately show ?thesis
    unfolding step_ok_def by blast
qed

lemma example_price:
  "loop_step no_str_float example_config example_env (AtTop, initial_state Buy)
     = (AtQuote 100 (Fin 99.965), initial_state Buy)"
  by (simp add: loop_top_def example_env_def example_config_def initial_state_def
        price_changed_def calculate_order_price_def load_avellaneda_parameters_def
        candidates_def no_files_def SPREAD_def Let_def)

lemma example_quote_decision:
  "quote_decision example_config example_env (Fin 100) (initial_state Buy) = PlaceOrder (Fin 9.801)"
  by (simp add: quote_decision_def calculate_dynamic_base_amount_def
        example_env_def example_config_def initial_state_def py_max_def pf_le_def
        SAFETY_MARGIN_PERCENT_def CAPITAL_USAGE_PERCENT_def Let_def)

lemma place_order_ack:
  "AMOUNT_TICK_SIZE cfg \<noteq> 0 \<Longrightarrow> PRICE_TICK_SIZE cfg \<noteq> 0 \<Longrightarrow>
   place_order Ack cfg sd (Fin p) oid (Fin amt) st
   = (Inr True,
      st\<lparr>transport_calls := transport_calls st @
            [CreateOrder (MARKET_ID cfg) oid (py_int (amt / AMOUNT_TICK_SIZE cfg))
               (py_int (p / PRICE_TICK_SIZE cfg)) (sd = Sell) (sd = Sell)],
         current_order_id := Some oid, exchange_orders := exchange_orders st @ [oid]\<rparr>)"
  by (simp add: place_order_def scaled_def Let_def)

lemma cfg_fields:
  "AMOUNT_TICK_SIZE example_config = 0.0001" "PRICE_TICK_SIZE example_config = 0.01"
  "MARKET_ID example_config = 1"
  by (simp_all add: example_config_def)

lemma env_fields:
  "transport example_env = Ack" "new_order_id example_env = 424242"
  by (simp_all add: example_env_def)

lemma init_fields:
  "order_side (initial_state sd) = sd" "current_order_id (initial_state sd) = None"
  "exchange_orders (initial_state sd) = []"
  "transport_calls (initial_state sd) = [CancelAllOrders]"
  by (simp_all add: initial_state_def)

lemma example_placement: "loop_step no_str_float example_config example_env
        (AtQuote 100 (Fin 99.965), initial_state Buy)
       = (AtTimeout 100,
          (initial_state Buy)\<lparr>current_order_id := Some 424242, last_mid_price := Some 100,
             last_order_base_amount := Fin 9.801, exchange_orders := [424242],
             transport_calls := [CancelAllOrders, CreateOrder 1 424242 98010 9996 False False]\<rparr>)"
proof -
  have "loop_quote example_config example_env 100 (Fin 99.965) (initial_state Buy)
        = (AtTimeout 100,
           (initial_state Buy)\<lparr>last_order_base_amount := Fin 9.801,
              transport_calls := transport_calls (initial_state Buy) @
                [CreateOrder 1 424242 (py_int (9.801 / 0.0001)) (py_int (99.965 / 0.01))
                   False False],
              current_order_id := Some 424242,
              exchange_orders := exchange_orders (initial_state Buy) @ [424242],
              last_mid_price := Some 100\<rparr>)"
    by (simp add: loop_quote_def example_quote_decision place_order_ack cfg_fields env_fields init_fields)
  then show ?thesis
    by (simp add: py_int_def initial_state_def)
qed

text \<open>
  From the start state the price check quotes 99.965 (static spread, no parameter
  file); the quote step then places order 424242, which becomes the one recorded and the
  one open.
\<close>

theorem single_outstanding_order_witness:
  "reachable no_str_float example_config (AtQuote 100 (Fin 99.965), initial_state Buy)
   \<and> loop_step no_str_float example_config example_env
        (AtQuote 100 (Fin 99.965), initial_state Buy)
       = (AtTimeout 100,
          (initial_state Buy)\<lparr>current_order_id := Some 424242, last_mid_price := Some 100,
             last_order_base_amount := Fin 9.801, exchange_orders := [424242],
             transport_calls := [CancelAllOrders, CreateOrder 1 424242 98010 9996 False False]\<rparr>)
   \<and> length (exchange_orders (initial_state Buy)) \<le> 1"
proof -
  have r: "reachable no_str_float example_config (AtQuote 100 (Fin 99.965), initial_state Buy)"
    using reachable.step [OF reachable.start, of no_str_float example_config example_env Buy]
    by (simp only: example_price)
  from single_outstanding_order [OF r example_placement]
  have "length (exchange_orders (initial_state Buy)) \<le> 1"
    by (rule conjunct1)
  with r example_placement show ?thesis
    by (intro conjI)
qed




text \<open>
  C9. The result of \<^verbatim>\<open>cancel_order\<close> and the state after it are the same for any
  two order-id arguments: it calls cancel-all on the transport, returns whether that was
  acknowledged, and on an acknowledgement clears the recorded id and the account's open
  orders. The argument appears only in the first log line.
\<close>

theorem cancel_order_ignores_order_id:
  "fst (cancel_order r a st) = fst (cancel_order r b st)
   \<and> fst (snd (cancel_order r a st)) = fst (snd (cancel_order r b st))
   \<and> tl (snd (snd (cancel_order r a st))) = tl (snd (snd (cancel_order r b st)))
   \<and> hd (snd (snd (cancel_order r a st))) = Cancelling_all_orders_was_targeting a
   \<and> transport_calls (fst (snd (cancel_order r a st))) = transport_calls st @ [CancelAllOrders]
   \<and> fst (cancel_order r a st) = (r = Ack)
   \<and> current_order_id (fst (snd (cancel_order Ack a st))) = None
   \<and> exchange_orders (fst (snd (cancel_order Ack a st))) = []"
  by (cases r) (simp_all add: cancel_order_def Let_def)

text \<open>
  C6, as the code has it. In an iteration that reaches the price check with an order
  outstanding (stream healthy or restarted, mid price known, a price quoted), the check
  calls cancel iff the current mid price differs from the last quoted mid price by more
  than 0.1 percent of the last quoted mid price. The quoted order price takes no part in
  the comparison.
\<close>

theorem price_change_cancel:
  assumes "current_order_id st = Some oid"
    and "last_mid_price st = Some l" and "l \<noteq> 0"
    and "ws_healthy e \<or> ws_restarted e" and "mid_read e = Some mid"
    and "calculate_order_price sf cfg (clock e) (files e) mid (order_side st) st
           = (Inr (Some price), st1)"
  shows "(CancelAllOrders \<in> set (new_calls st (snd (loop_step sf cfg e (AtTop, st)))))
           = (0.001 < \<bar>mid - l\<bar> / l)
         \<and> new_calls st (snd (loop_step sf cfg e (AtTop, st)))
           = (if 0.001 < \<bar>mid - l\<bar> / l then [CancelAllOrders] else [])"
proof -
  from price_frame [OF assms(6)] have f: "params_frame st st1" .
  from params_frame_fields [OF f] assms(1)
  have id: "current_order_id st1 = Some oid" and tc: "transport_calls st1 = transport_calls st"
    by simp_all
  have c: "transport_calls (fst (snd (cancel_order (transport e) oid st1)))
             = transport_calls st @ [CancelAllOrders]"
    using cancel_order_effect [of "transport e" oid st1] tc
    by (cases "cancel_order (transport e) oid st1") auto
  have "snd (loop_step sf cfg e (AtTop, st)) =
          (if 0.001 < \<bar>mid - l\<bar> / l then fst (snd (cancel_order (transport e) oid st1)) else st1)"
    using assms id by (auto simp: loop_top_def price_changed_def)
  then show ?thesis
    using c tc by (simp add: new_calls_def)
qed

lemma static_price:
  "calculate_order_price no_str_float example_config 1000 no_files mid sd (quoted_state sd')
     = (Inr (Some (Fin (if sd = Buy then mid * (1 - 0.00035) else mid * (1 + 0.00035)))),
        quoted_state sd')"
  by (simp add: calculate_order_price_def load_avellaneda_parameters_def candidates_def
        no_files_def example_config_def quoted_state_def initial_state_def SPREAD_def Let_def)

text \<open>
  The spec's examples: last quoted mid 100; a new mid of 100.05 leaves the order in
  place, a new mid of 100.2 cancels.
\<close>

theorem price_change_cancel_witness:
  "new_calls (quoted_state Buy)
     (snd (loop_step no_str_float example_config (example_env\<lparr>mid_read := Some 100.05\<rparr>)
            (AtTop, quoted_state Buy))) = []
   \<and> new_calls (quoted_state Buy)
     (snd (loop_step no_str_float example_config (example_env\<lparr>mid_read := Some 100.2\<rparr>)
            (AtTop, quoted_state Buy))) = [CancelAllOrders]"
proof -
  have f: "current_order_id (quoted_state Buy) = Some 7"
    "last_mid_price (quoted_state Buy) = Some 100" "order_side (quoted_state Buy) = Buy"
    by (simp_all add: quoted_state_def initial_state_def)
  have e: "ws_healthy (example_env\<lparr>mid_read := m\<rparr>) \<or> ws_restarted (example_env\<lparr>mid_read := m\<rparr>)"
    "mid_read (example_env\<lparr>mid_read := m\<rparr>) = m"
    "clock (example_env\<lparr>mid_read := m\<rparr>) = 1000"
    "files (example_env\<lparr>mid_read := m\<rparr>) = no_files" for m
    by (simp_all add: example_env_def)
  have p: "calculate_order_price no_str_float example_config
             (clock (example_env\<lparr>mid_read := Some m\<rparr>)) (files (example_env\<lparr>mid_read := Some m\<rparr>))
             m (order_side (quoted_state Buy)) (quoted_state Buy)
           = (Inr (Some (Fin (m * (1 - 0.00035)))), quoted_state Buy)" for m
    using static_price [of m Buy Buy] by (simp add: e f)
  have nz: "(100::real) \<noteq> 0" by simp
  from price_change_cancel [OF f(1) f(2) nz e(1) e(2) p, of "100.05"]
    price_change_cancel [OF f(1) f(2) nz e(1) e(2) p, of "100.2"]
  show ?thesis by simp
qed

text \<open>
  C6 as stated compares the computed price with the last quoted mid price. On the Sell
  side with last quoted mid 100 and a new mid of 100.08, the computed price 100.115028
  is more than 0.1 percent above 100, and the price check leaves the order in place.
\<close>

theorem computed_price_counterexample:
  "loop_step no_str_float example_config (example_env\<lparr>mid_read := Some 100.08\<rparr>)
      (AtTop, quoted_state Sell)
     = (AtQuote 100.08 (Fin 100.115028), quoted_state Sell)
   \<and> current_order_id (quoted_state Sell) = Some 7
   \<and> last_mid_price (quoted_state Sell) = Some 100
   \<and> 0.001 < \<bar>100.115028 - 100\<bar> / (100::real)"
proof -
  have "loop_top no_str_float example_config (example_env\<lparr>mid_read := Some 100.08\<rparr>)
          (quoted_state Sell)
        = (AtQuote 100.08 (Fin (100.08 * (1 + 0.00035))), quoted_state Sell)"
    using static_price [of "100.08" Sell Sell]
    by (simp add: loop_top_def price_changed_def example_env_def)
      (simp add: quoted_state_def initial_state_def)
  then show ?thesis
    by (simp add: quoted_state_def initial_state_def)
qed

section \<open>Quote pricing engine: properties\<close>

lemma read_candidates_first:
  "read_candidates fs ps =
     (case first_existing fs ps of
        None \<Rightarrow> Data None
      | Some p \<Rightarrow>
          (case fs p of
             Contents d \<Rightarrow> Data (Some d)
           | InvalidJSON \<Rightarrow> ReturnFalse
           | ReadError \<Rightarrow> Propagate
           | FileNotFound \<Rightarrow> Data None))"
  by (induction ps) (auto simp: first_existing_def split: file_state.splits)

lemma load_stale:
  assumes "cache_stale now st"
  shows "load_avellaneda_parameters sf cfg now fs st =
     (case first_existing fs (candidates cfg) of
        None \<Rightarrow> (False, st\<lparr>avellaneda_params := None\<rparr>)
      | Some p \<Rightarrow>
          (case fs p of
             Contents d \<Rightarrow>
               if params_accepted sf d
               then (True, st\<lparr>avellaneda_params := Some d, last_avellaneda_update := now\<rparr>)
               else (False, st\<lparr>avellaneda_params := None\<rparr>)
           | _ \<Rightarrow> (False, st\<lparr>avellaneda_params := None\<rparr>)))"
  using assms
  by (auto simp: load_avellaneda_parameters_def cache_stale_def read_candidates_first Let_def
        split: option.splits file_state.splits)

lemma isfinite_iff: "isfinite x = (\<exists>r. x = Fin r)"
  by (cases x) simp_all

lemma params_acceptedD:
  assumes "params_accepted sf d"
  shows "\<exists>kvs lo va vb a b. d = JDict kvs
           \<and> map_of kvs ''limit_orders'' = Some (JDict lo)
           \<and> map_of lo ''delta_a'' = Some va \<and> map_of lo ''delta_b'' = Some vb
           \<and> py_float sf va = Inr (Fin a) \<and> py_float sf vb = Inr (Fin b)
           \<and> 0 \<le> a \<and> 0 \<le> b"
proof -
  from assms obtain kvs where d: "d = JDict kvs"
    by (cases d) (auto simp: params_accepted_def split: if_splits)
  from assms d obtain lo where lo: "map_of kvs ''limit_orders'' = Some (JDict lo)"
    by (cases "map_of kvs ''limit_orders''")
      (auto simp: params_accepted_def split: if_splits json.splits)
  from assms d lo have
    "case py_float sf (case map_of lo ''delta_a'' of None \<Rightarrow> JNull | Some v \<Rightarrow> v) of
       Inl e \<Rightarrow> False
     | Inr fa \<Rightarrow>
         (case py_float sf (case map_of lo ''delta_b'' of None \<Rightarrow> JNull | Some v \<Rightarrow> v) of
            Inl e \<Rightarrow> False
          | Inr fb \<Rightarrow> isfinite fa \<and> isfinite fb \<and> \<not> pf_lt_zero fa \<and> \<not> pf_lt_zero fb)"
    by (auto simp: params_accepted_def split: if_splits sum.splits)
  then obtain a b where
    fa: "py_float sf (case map_of lo ''delta_a'' of None \<Rightarrow> JNull | Some v \<Rightarrow> v) = Inr (Fin a)"
    and fb: "py_float sf (case map_of lo ''delta_b'' of None \<Rightarrow> JNull | Some v \<Rightarrow> v) = Inr (Fin b)"
    and nn: "0 \<le> a" "0 \<le> b"
    by (auto simp: isfinite_iff split: sum.splits)
  from fa obtain va where va: "map_of lo ''delta_a'' = Some va"
    by (cases "map_of lo ''delta_a''") auto
  from fb obtain vb where vb: "map_of lo ''delta_b'' = Some vb"
    by (cases "map_of lo ''delta_b''") auto
  from d lo va vb fa fb nn show ?thesis by auto
qed

lemma float_accepts_iff:
  "float_accepts sf v = (\<exists>x. py_float sf v = Inr (Fin x) \<and> 0 \<le> x)"
  by (auto simp: float_accepts_def split: sum.splits pyfloat.splits)

lemma rejected_iff_not_accepted:
  "rejected_file sf (Contents d) = (\<not> params_accepted sf d)"
proof
  assume r: "rejected_file sf (Contents d)"
  show "\<not> params_accepted sf d"
  proof
    assume "params_accepted sf d"
    from params_acceptedD [OF this] obtain kvs lo va vb a b where
      "d = JDict kvs" "map_of kvs ''limit_orders'' = Some (JDict lo)"
      "map_of lo ''delta_a'' = Some va" "map_of lo ''delta_b'' = Some vb"
      "py_float sf va = Inr (Fin a)" "py_float sf vb = Inr (Fin b)" "0 \<le> a" "0 \<le> b"
      by blast
    with r show False
      by (simp add: rejected_file_def spec_lacks_limit_orders_def rejected_delta_def
            float_accepts_def)
  qed
next
  assume n: "\<not> params_accepted sf d"
  show "rejected_file sf (Contents d)"
  proof (rule ccontr)
    assume nr: "\<not> rejected_file sf (Contents d)"
    then obtain kvs lo where d: "d = JDict kvs" "map_of kvs ''limit_orders'' = Some (JDict lo)"
      by (auto simp: rejected_file_def spec_lacks_limit_orders_def
            split: json.splits option.splits)
    from nr d obtain va vb where v: "map_of lo ''delta_a'' = Some va" "float_accepts sf va"
      "map_of lo ''delta_b'' = Some vb" "float_accepts sf vb"
      by (auto simp: rejected_file_def rejected_delta_def split: option.splits)
    from v(2,4) obtain a b where f: "py_float sf va = Inr (Fin a)" "0 \<le> a"
      "py_float sf vb = Inr (Fin b)" "0 \<le> b"
      by (auto simp: float_accepts_iff)
    from d(2) have "kvs \<noteq> []" by auto
    with d v(1,3) f have "params_accepted sf d"
      by (simp add: params_accepted_def)
    with n show False by simp
  qed
qed

lemma bad_number_rejected_or_converted:
  "spec_bad_number v \<Longrightarrow>
   (case v of None \<Rightarrow> True | Some w \<Rightarrow> \<not> float_accepts sf w) \<or> converted_non_number sf v"
proof (cases v)
  case None
  then show ?thesis by simp
next
  case (Some w)
  assume "spec_bad_number v"
  with Some show ?thesis
  proof (cases w)
    case (JFloat x)
    assume "spec_bad_number v"
    with Some JFloat show ?thesis
      by (cases x) (simp_all add: float_accepts_def)
  qed (auto simp: float_accepts_def)
qed

lemma spec_invalid_rejected_or_converted:
  assumes "spec_invalid_file f"
  shows "rejected_file sf f \<or> has_converted_offset sf f"
proof (cases f)
  case (Contents d)
  show ?thesis
  proof (cases "spec_lacks_limit_orders d")
    case True
    with Contents show ?thesis by (simp add: rejected_file_def)
  next
    case False
    then obtain kvs lo where d: "d = JDict kvs" "map_of kvs ''limit_orders'' = Some (JDict lo)"
      by (auto simp: spec_lacks_limit_orders_def split: json.splits option.splits)
    from assms Contents False d
    have "spec_bad_number (map_of lo ''delta_a'') \<or> spec_bad_number (map_of lo ''delta_b'')"
      by (simp add: spec_invalid_file_def spec_bad_delta_def)
    with bad_number_rejected_or_converted [of "map_of lo ''delta_a''" sf]
      bad_number_rejected_or_converted [of "map_of lo ''delta_b''" sf]
    show ?thesis
      using Contents d
      by (auto simp: rejected_file_def rejected_delta_def has_converted_offset_def
            split: option.splits)
  qed
qed (use assms in \<open>simp_all add: spec_invalid_file_def rejected_file_def\<close>)

lemma static_fallback:
  "load_avellaneda_parameters sf cfg now fs st = (False, st') \<Longrightarrow>
   calculate_order_price sf cfg now fs mid sd st = (Inr (static_quote cfg mid sd), st')"
  by (simp add: calculate_order_price_def static_quote_def SPREAD_def)

lemma rejected_load:
  assumes "cache_stale now st"
    and "first_existing fs (candidates cfg) = Some p"
    and "rejected_file sf (fs p)"
  shows "load_avellaneda_parameters sf cfg now fs st = (False, st\<lparr>avellaneda_params := None\<rparr>)"
proof (cases "fs p")
  case (Contents d)
  with assms(3) have "\<not> params_accepted sf d"
    by (simp add: rejected_iff_not_accepted)
  with Contents assms(2) show ?thesis
    by (simp add: load_stale [OF assms(1)])
next
  case InvalidJSON
  with assms(2) show ?thesis by (simp add: load_stale [OF assms(1)])
qed (use assms(3) in \<open>simp_all add: rejected_file_def\<close>)

lemma accepted_load:
  assumes "cache_stale now st"
    and "first_existing fs (candidates cfg) = Some p"
    and "fs p = Contents data"
    and "\<not> rejected_file sf (Contents data)"
  shows "load_avellaneda_parameters sf cfg now fs st
           = (True, st\<lparr>avellaneda_params := Some data, last_avellaneda_update := now\<rparr>)"
  using assms(2,3,4)
  by (simp add: load_stale [OF assms(1)] rejected_iff_not_accepted)

lemma fresh_load:
  assumes "\<not> cache_stale now st"
  shows "load_avellaneda_parameters sf cfg now fs st = (True, st)"
    and "snd (calculate_order_price sf cfg now fs mid sd st) = st"
proof -
  from assms show l: "load_avellaneda_parameters sf cfg now fs st = (True, st)"
    by (auto simp: load_avellaneda_parameters_def cache_stale_def)
  show "snd (calculate_order_price sf cfg now fs mid sd st) = st"
    by (simp add: calculate_order_price_def l split: option.splits sum.splits)
qed

text \<open>
  C3, as the code has it. Every file the specification lists as invalid is one the
  loader rejects, unless an offset that is not a number is converted all the same (a
  boolean, or a string read as a float). When the loader goes to the files (cache
  empty, or at least 900 seconds old), the first existing candidate is rejected exactly
  when it is invalid JSON, or lacks the \<^verbatim>\<open>limit_orders\<close> object, or has an offset that is absent,
  or that \<^verbatim>\<open>float()\<close> does not convert, or that converts to a negative, NaN or
  infinite float: then the loader returns False with the cache None and nothing else
  changed, and pricing gives the static spread, or no-quote in strict mode. Every other
  file is accepted and cached whole. A boolean offset converts (to 1.0 or 0.0) and so
  does a string the interpreter reads as a float: they are not rejected as non-numeric.
  While the cache is set and younger than 900 seconds the loader returns True without
  reading any file, and pricing leaves the state as it is.
\<close>

theorem invalid_params_file_rejected:
  "(spec_invalid_file (fs p) \<longrightarrow> rejected_file sf (fs p) \<or> has_converted_offset sf (fs p))
   \<and> (cache_stale now st \<and> first_existing fs (candidates cfg) = Some p
      \<and> rejected_file sf (fs p) \<longrightarrow>
        load_avellaneda_parameters sf cfg now fs st = (False, st\<lparr>avellaneda_params := None\<rparr>)
        \<and> calculate_order_price sf cfg now fs mid sd st
            = (Inr (static_quote cfg mid sd), st\<lparr>avellaneda_params := None\<rparr>))
   \<and> (cache_stale now st \<and> first_existing fs (candidates cfg) = Some p
      \<and> fs p = Contents data \<and> \<not> rejected_file sf (Contents data) \<longrightarrow>
        load_avellaneda_parameters sf cfg now fs st
          = (True, st\<lparr>avellaneda_params := Some data, last_avellaneda_update := now\<rparr>))
   \<and> float_accepts sf (JBool b)
   \<and> (sf s = Some (Fin x) \<and> 0 \<le> x \<longrightarrow> float_accepts sf (JStr s))
   \<and> (\<not> cache_stale now st \<longrightarrow>
        load_avellaneda_parameters sf cfg now fs st = (True, st)
        \<and> snd (calculate_order_price sf cfg now fs mid sd st) = st)"
proof -
  have "float_accepts sf (JBool b)"
    by (simp add: float_accepts_def)
  moreover have "sf s = Some (Fin x) \<and> 0 \<le> x \<longrightarrow> float_accepts sf (JStr s)"
    by (simp add: float_accepts_def)
  ultimately show ?thesis
    using spec_invalid_rejected_or_converted [of "fs p" sf]
      rejected_load [of now st fs cfg p sf] accepted_load [of now st fs cfg p data sf]
      fresh_load(1) [of now st sf cfg fs] fresh_load(2) [of now st sf cfg fs mid sd]
      static_fallback [of sf cfg now fs st _ mid sd]
    by simp
qed

lemma example_candidates:
  "candidates example_config =
     [''params/avellaneda_parameters_PAXG.json'', ''params/avellaneda_parameters_PAXG.json'',
      ''avellaneda_parameters_PAXG.json'', ''TRADER/avellaneda_parameters_PAXG.json'']"
  by (simp add: candidates_def os_path_join_def params_file_name_def example_config_def)

lemma valid_params_accepted: "params_accepted sf valid_params"
  by (simp add: valid_params_def params_json_def params_accepted_def)

lemma valid_params_deltas:
  "cached_delta sf valid_params ''delta_a'' = Inr (Fin 0.3)"
  "cached_delta sf valid_params ''delta_b'' = Inr (Fin 0.2)"
  by (simp_all add: valid_params_def params_json_def cached_delta_def)

lemma load_ok_accepted:
  assumes "cache_valid sf st" and "load_avellaneda_parameters sf cfg now fs st = (ok, st')"
  shows "cache_valid sf st'"
    and "ok \<Longrightarrow> \<exists>params. avellaneda_params st' = Some params \<and> params_accepted sf params"
  using assms
  by (auto simp: load_avellaneda_parameters_def cache_valid_def Let_def
        split: if_splits read_result.splits option.splits)

lemma accepted_deltas:
  assumes "params_accepted sf params"
  shows "\<exists>da db. truthy params \<and> cached_delta sf params ''delta_a'' = Inr (Fin da)
           \<and> cached_delta sf params ''delta_b'' = Inr (Fin db) \<and> 0 \<le> da \<and> 0 \<le> db"
proof -
  from params_acceptedD [OF assms] obtain kvs lo va vb a b where
    "params = JDict kvs" "map_of kvs ''limit_orders'' = Some (JDict lo)"
    "map_of lo ''delta_a'' = Some va" "map_of lo ''delta_b'' = Some vb"
    "py_float sf va = Inr (Fin a)" "py_float sf vb = Inr (Fin b)" "0 \<le> a" "0 \<le> b"
    by blast
  then show ?thesis
    by (auto simp: cached_delta_def)
qed

text \<open>
  C2. From a state whose cache is empty or was accepted by the loader (every reachable
  state): when the loader reports valid parameters, with offsets delta_a and delta_b,
  the price is mid - delta_b for Buy and mid + delta_a for Sell; otherwise it is None in
  strict mode, and else mid * (1 - 0.00035) for Buy and mid * (1 + 0.00035) for Sell.
\<close>

theorem calculate_order_price_spec:
  assumes "cache_valid sf st"
    and "load_avellaneda_parameters sf cfg now fs st = (ok, st')"
  shows "(ok \<longrightarrow>
           (\<exists>params da db. avellaneda_params st' = Some params
              \<and> cached_delta sf params ''delta_a'' = Inr (Fin da)
              \<and> cached_delta sf params ''delta_b'' = Inr (Fin db)
              \<and> 0 \<le> da \<and> 0 \<le> db
              \<and> calculate_order_price sf cfg now fs mid sd st
                  = (Inr (Some (Fin (if sd = Buy then mid - db else mid + da))), st')))
    \<and> (\<not> ok \<and> REQUIRE_PARAMS cfg \<longrightarrow>
           calculate_order_price sf cfg now fs mid sd st = (Inr None, st'))
    \<and> (\<not> ok \<and> \<not> REQUIRE_PARAMS cfg \<longrightarrow>
           calculate_order_price sf cfg now fs mid sd st
             = (Inr (Some (Fin (if sd = Buy then mid * (1 - 0.00035)
                                else mid * (1 + 0.00035)))), st'))"
proof (cases ok)
  case True
  from load_ok_accepted(2) [OF assms] True obtain params where
    p: "avellaneda_params st' = Some params" "params_accepted sf params" by blast
  from accepted_deltas [OF p(2)] obtain da db where
    d: "truthy params" "cached_delta sf params ''delta_a'' = Inr (Fin da)"
       "cached_delta sf params ''delta_b'' = Inr (Fin db)" "0 \<le> da" "0 \<le> db"
    by blast
  have "calculate_order_price sf cfg now fs mid sd st
          = (Inr (Some (Fin (if sd = Buy then mid - db else mid + da))), st')"
    using assms(2) True p(1) d(1,2,3)
    by (simp add: calculate_order_price_def pf_sub_def)
  with True p(1) d show ?thesis by blast
next
  case False
  with assms(2) show ?thesis
    by (simp add: calculate_order_price_def SPREAD_def)
qed

lemma initial_stale: "cache_stale now (initial_state sd)"
  by (simp add: cache_stale_def initial_state_def)

lemma initial_cleared: "(initial_state sd)\<lparr>avellaneda_params := None\<rparr> = initial_state sd"
  by (simp add: initial_state_def)

lemma first_one_file:
  "f \<noteq> FileNotFound \<Longrightarrow> first_existing (one_file f) (candidates example_config) = Some params_path"
  by (simp add: first_existing_def example_candidates one_file_def files_of_def params_path_def)

lemma one_file_at: "one_file f params_path = f"
  by (simp add: one_file_def files_of_def)

lemma first_later_valid:
  "f \<noteq> FileNotFound \<Longrightarrow>
   first_existing (later_valid_files f) (candidates example_config) = Some params_path"
  by (simp add: first_existing_def example_candidates later_valid_files_def files_of_def
        params_path_def)

lemma later_valid_at:
  "later_valid_files f params_path = f"
  "later_valid_files f ''avellaneda_parameters_PAXG.json'' = Contents valid_params"
  by (simp_all add: later_valid_files_def files_of_def params_path_def)

lemma first_skipping:
  "first_existing skipping_files (candidates example_config)
     = Some ''avellaneda_parameters_PAXG.json''"
  by (simp add: first_existing_def example_candidates skipping_files_def files_of_def)

lemma skipping_at:
  "skipping_files ''avellaneda_parameters_PAXG.json'' = Contents valid_params"
  by (simp add: skipping_files_def files_of_def)

lemma load_valid_file:
  "load_avellaneda_parameters sf example_config 1000 (one_file (Contents valid_params))
     (initial_state Buy) = (True, loaded_state)"
  by (simp add: load_stale [OF initial_stale] first_one_file one_file_at valid_params_accepted
        loaded_state_def)

lemma load_no_files:
  "load_avellaneda_parameters sf cfg now no_files (initial_state sd) = (False, initial_state sd)"
proof -
  have "first_existing no_files ps = None" for ps
    by (induction ps) (simp_all add: first_existing_def no_files_def)
  then show ?thesis
    by (simp add: load_stale [OF initial_stale] initial_cleared)
qed

lemma initial_cache_valid: "cache_valid sf (initial_state sd)"
  by (simp add: cache_valid_def initial_state_def)

text \<open>
  The spec's examples: mid 100 with delta_b = 0.2 and delta_a = 0.3 gives 99.8 and
  100.3; without a parameter file 99.965 and 100.035, and no-quote in strict mode.
\<close>

theorem calculate_order_price_spec_witness:
  "calculate_order_price no_str_float example_config 1000 (one_file (Contents valid_params))
      100 Buy (initial_state Buy) = (Inr (Some (Fin 99.8)), loaded_state)
   \<and> calculate_order_price no_str_float example_config 1000 (one_file (Contents valid_params))
      100 Sell (initial_state Buy) = (Inr (Some (Fin 100.3)), loaded_state)
   \<and> calculate_order_price no_str_float example_config 1000 no_files
      100 Buy (initial_state Buy) = (Inr (Some (Fin 99.965)), initial_state Buy)
   \<and> calculate_order_price no_str_float example_config 1000 no_files
      100 Sell (initial_state Buy) = (Inr (Some (Fin 100.035)), initial_state Buy)
   \<and> calculate_order_price no_str_float (example_config\<lparr>REQUIRE_PARAMS := True\<rparr>) 1000 no_files
      100 Buy (initial_state Buy) = (Inr None, initial_state Buy)"
proof -
  have loaded: "avellaneda_params loaded_state = Some valid_params"
    by (simp add: loaded_state_def)
  have req: "\<not> REQUIRE_PARAMS example_config"
    "REQUIRE_PARAMS (example_config\<lparr>REQUIRE_PARAMS := True\<rparr>)"
    by (simp_all add: example_config_def)
  from calculate_order_price_spec [OF initial_cache_valid load_valid_file,
      where sf = no_str_float and mid = 100 and sd = Buy]
    calculate_order_price_spec [OF initial_cache_valid load_valid_file,
      where sf = no_str_float and mid = 100 and sd = Sell]
    calculate_order_price_spec [OF initial_cache_valid load_no_files,
      where sf = no_str_float and cfg = example_config and now = 1000 and mid = 100
        and sd = Buy and ?sd1 = Buy]
    calculate_order_price_spec [OF initial_cache_valid load_no_files,
      where sf = no_str_float and cfg = example_config and now = 1000 and mid = 100
        and sd = Sell and ?sd1 = Buy]
    calculate_order_price_spec [OF initial_cache_valid load_no_files,
      where sf = no_str_float and cfg = "example_config\<lparr>REQUIRE_PARAMS := True\<rparr>"
        and now = 1000 and mid = 100 and sd = Buy and ?sd1 = Buy]
  show ?thesis
    by (auto simp: loaded valid_params_deltas req)
qed

lemma boolean_params_load:
  "load_avellaneda_parameters sf example_config 1000 (one_file (Contents boolean_params))
     (initial_state Buy)
     = (True, (initial_state Buy)\<lparr>avellaneda_params := Some boolean_params,
                 last_avellaneda_update := 1000\<rparr>)"
  by (simp add: load_stale [OF initial_stale] first_one_file one_file_at
        boolean_params_def params_json_def params_accepted_def)

lemma string_params_load:
  "load_avellaneda_parameters example_str_float example_config 1000
     (one_file (Contents string_params)) (initial_state Buy)
     = (True, (initial_state Buy)\<lparr>avellaneda_params := Some string_params,
                 last_avellaneda_update := 1000\<rparr>)"
  by (simp add: load_stale [OF initial_stale] first_one_file one_file_at
        string_params_def params_json_def params_accepted_def example_str_float_def)

lemma cached_state_fresh: "\<not> cache_stale 1000 cached_state"
  by (simp add: cache_stale_def cached_state_def AVELLANEDA_REFRESH_INTERVAL_def)

text \<open>
  Invalid JSON, no \<^verbatim>\<open>limit_orders\<close>, delta_a = -1, delta_b = NaN, delta_a =
  Infinity, delta_a = "abc": each is rejected; the price at mid 100 is then 99.965, or
  no-quote in strict mode. The file with delta_a = true is accepted and cached. Ten
  seconds after a successful load a file that is invalid JSON is not read.
\<close>

theorem invalid_params_file_rejected_witness:
  "load_avellaneda_parameters no_str_float example_config 1000 (one_file InvalidJSON)
      (initial_state Buy) = (False, initial_state Buy)
   \<and> load_avellaneda_parameters no_str_float example_config 1000
        (one_file (Contents (JDict [(''other'', JInt 1)]))) (initial_state Buy)
       = (False, initial_state Buy)
   \<and> load_avellaneda_parameters no_str_float example_config 1000
        (one_file (Contents (params_json (JFloat (Fin (- 1))) (JFloat (Fin 0.2)))))
        (initial_state Buy) = (False, initial_state Buy)
   \<and> load_avellaneda_parameters no_str_float example_config 1000
        (one_file (Contents (params_json (JFloat (Fin 0.3)) (JFloat NaN))))
        (initial_state Buy) = (False, initial_state Buy)
   \<and> load_avellaneda_parameters no_str_float example_config 1000
        (one_file (Contents (params_json (JFloat PosInf) (JFloat (Fin 0.2)))))
        (initial_state Buy) = (False, initial_state Buy)
   \<and> load_avellaneda_parameters no_str_float example_config 1000
        (one_file (Contents (params_json (JStr ''abc'') (JFloat (Fin 0.2)))))
        (initial_state Buy) = (False, initial_state Buy)
   \<and> calculate_order_price no_str_float example_config 1000
        (one_file (Contents (params_json (JFloat (Fin (- 1))) (JFloat (Fin 0.2)))))
        100 Buy (initial_state Buy) = (Inr (Some (Fin 99.965)), initial_state Buy)
   \<and> calculate_order_price no_str_float (example_config\<lparr>REQUIRE_PARAMS := True\<rparr>) 1000
        (one_file (Contents (params_json (JFloat (Fin (- 1))) (JFloat (Fin 0.2)))))
        100 Buy (initial_state Buy) = (Inr None, initial_state Buy)
   \<and> load_avellaneda_parameters no_str_float example_config 1000
        (one_file (Contents boolean_params)) (initial_state Buy)
       = (True, (initial_state Buy)\<lparr>avellaneda_params := Some boolean_params,
                   last_avellaneda_update := 1000\<rparr>)
   \<and> load_avellaneda_parameters no_str_float example_config 1000 (one_file InvalidJSON)
        cached_state = (True, cached_state)"
proof -
  have c: "candidates (example_config\<lparr>REQUIRE_PARAMS := True\<rparr>) = candidates example_config"
    by (simp add: candidates_def params_file_name_def)
  have inv: "rejected_file no_str_float (one_file InvalidJSON params_path)"
    "rejected_file no_str_float (one_file (Contents (JDict [(''other'', JInt 1)])) params_path)"
    "rejected_file no_str_float
       (one_file (Contents (params_json (JFloat (Fin (- 1))) (JFloat (Fin 0.2)))) params_path)"
    "rejected_file no_str_float
       (one_file (Contents (params_json (JFloat (Fin 0.3)) (JFloat NaN))) params_path)"
    "rejected_file no_str_float
       (one_file (Contents (params_json (JFloat PosInf) (JFloat (Fin 0.2)))) params_path)"
    "rejected_file no_str_float
       (one_file (Contents (params_json (JStr ''abc'') (JFloat (Fin 0.2)))) params_path)"
    by (simp_all add: one_file_at rejected_file_def spec_lacks_limit_orders_def
          rejected_delta_def float_accepts_def params_json_def no_str_float_def)
  have ok: "\<not> rejected_file no_str_float (Contents boolean_params)"
    by (simp add: rejected_file_def spec_lacks_limit_orders_def rejected_delta_def
          float_accepts_def boolean_params_def params_json_def)
  have fe: "first_existing (one_file f) (candidates (example_config\<lparr>REQUIRE_PARAMS := True\<rparr>))
               = Some params_path" if "f \<noteq> FileNotFound" for f
    using that by (simp add: c first_one_file)
  have r: "load_avellaneda_parameters no_str_float cfg 1000 (one_file f) (initial_state Buy)
             = (False, initial_state Buy)
           \<and> calculate_order_price no_str_float cfg 1000 (one_file f) mid sd (initial_state Buy)
             = (Inr (static_quote cfg mid sd), initial_state Buy)"
    if "first_existing (one_file f) (candidates cfg) = Some params_path"
      "rejected_file no_str_float (one_file f params_path)" for f cfg mid sd
    using invalid_params_file_rejected
      [where now = 1000 and st = "initial_state Buy" and fs = "one_file f" and cfg = cfg
         and p = params_path and sf = no_str_float and mid = mid and sd = sd] that
    by (simp add: initial_stale initial_cleared)
  have a: "load_avellaneda_parameters no_str_float example_config 1000
        (one_file (Contents boolean_params)) (initial_state Buy)
       = (True, (initial_state Buy)\<lparr>avellaneda_params := Some boolean_params,
                   last_avellaneda_update := 1000\<rparr>)"
    using invalid_params_file_rejected
      [where now = 1000 and st = "initial_state Buy"
         and fs = "one_file (Contents boolean_params)" and cfg = example_config
         and p = params_path and sf = no_str_float and data = boolean_params] ok
    by (simp add: initial_stale first_one_file one_file_at)
  have f: "load_avellaneda_parameters no_str_float example_config 1000 (one_file InvalidJSON)
        cached_state = (True, cached_state)"
    using invalid_params_file_rejected
      [where now = 1000 and st = cached_state and fs = "one_file InvalidJSON"
         and cfg = example_config and sf = no_str_float]
    by (simp add: cached_state_fresh)
  from r [OF first_one_file inv(1)] r [OF first_one_file inv(2)]
    r [OF first_one_file inv(3), of 100 Buy] r [OF first_one_file inv(4)]
    r [OF first_one_file inv(5)] r [OF first_one_file inv(6)]
    r [OF fe inv(3), of 100 Buy] a f
  show ?thesis
    by (simp add: static_quote_def example_config_def)
qed

text \<open>
  C3 as stated. The cache is empty, so the file is read; its delta_a is the JSON value
  true, which is not a number. The loader does not fail: \<^verbatim>\<open>float(True)\<close> is 1.0, the
  file is accepted and cached, and the Sell price at mid 100 is 101. In the same way a
  delta_a given as the string "0.3" is accepted and the Sell price is 100.3.
\<close>

theorem boolean_offset_counterexample:
  "spec_invalid_file (one_file (Contents boolean_params) params_path)
   \<and> spec_bad_delta boolean_params ''delta_a''
   \<and> cache_stale 1000 (initial_state Buy)
   \<and> first_existing (one_file (Contents boolean_params)) (candidates example_config)
       = Some params_path
   \<and> load_avellaneda_parameters no_str_float example_config 1000
        (one_file (Contents boolean_params)) (initial_state Buy)
       = (True, (initial_state Buy)\<lparr>avellaneda_params := Some boolean_params,
                   last_avellaneda_update := 1000\<rparr>)
   \<and> calculate_order_price no_str_float example_config 1000
        (one_file (Contents boolean_params)) 100 Sell (initial_state Buy)
       = (Inr (Some (Fin 101)),
          (initial_state Buy)\<lparr>avellaneda_params := Some boolean_params,
             last_avellaneda_update := 1000\<rparr>)
   \<and> spec_invalid_file (one_file (Contents string_params) params_path)
   \<and> load_avellaneda_parameters example_str_float example_config 1000
        (one_file (Contents string_params)) (initial_state Buy)
       = (True, (initial_state Buy)\<lparr>avellaneda_params := Some string_params,
                   last_avellaneda_update := 1000\<rparr>)
   \<and> calculate_order_price example_str_float example_config 1000
        (one_file (Contents string_params)) 100 Sell (initial_state Buy)
       = (Inr (Some (Fin 100.3)),
          (initial_state Buy)\<lparr>avellaneda_params := Some string_params,
             last_avellaneda_update := 1000\<rparr>)"
proof -
  have s: "spec_invalid_file (one_file (Contents boolean_params) params_path)"
    "spec_bad_delta boolean_params ''delta_a''"
    "spec_invalid_file (one_file (Contents string_params) params_path)"
    by (simp_all add: one_file_at spec_invalid_file_def spec_lacks_limit_orders_def
          spec_bad_delta_def boolean_params_def string_params_def params_json_def)
  have d: "cached_delta no_str_float boolean_params ''delta_a'' = Inr (Fin 1)"
    "cached_delta example_str_float string_params ''delta_a'' = Inr (Fin 0.3)"
    "truthy boolean_params" "truthy string_params"
    by (simp_all add: cached_delta_def boolean_params_def string_params_def params_json_def
          example_str_float_def)
  have p: "calculate_order_price no_str_float example_config 1000
        (one_file (Contents boolean_params)) 100 Sell (initial_state Buy)
       = (Inr (Some (Fin 101)),
          (initial_state Buy)\<lparr>avellaneda_params := Some boolean_params,
             last_avellaneda_update := 1000\<rparr>)"
    by (simp add: calculate_order_price_def boolean_params_load d)
  have q: "calculate_order_price example_str_float example_config 1000
        (one_file (Contents string_params)) 100 Sell (initial_state Buy)
       = (Inr (Some (Fin 100.3)),
          (initial_state Buy)\<lparr>avellaneda_params := Some string_params,
             last_avellaneda_update := 1000\<rparr>)"
    by (simp add: calculate_order_price_def string_params_load d)
  from s p q show ?thesis
    by (simp add: initial_stale first_one_file boolean_params_load string_params_load)
qed

text \<open>
  C8, as the code has it. When the loader goes to the files, the first candidate path
  that exists decides alone: missing candidates are skipped; if that file holds accepted
  parameters they are cached, and if it is unreadable, invalid JSON or holds invalid
  parameters the load fails and no later candidate is tried.
\<close>

theorem first_existing_candidate_decides:
  assumes "cache_stale now st"
  shows "load_avellaneda_parameters sf cfg now fs st =
     (case first_existing fs (candidates cfg) of
        None \<Rightarrow> (False, st\<lparr>avellaneda_params := None\<rparr>)
      | Some p \<Rightarrow>
          (case fs p of
             Contents d \<Rightarrow>
               if params_accepted sf d
               then (True, st\<lparr>avellaneda_params := Some d, last_avellaneda_update := now\<rparr>)
               else (False, st\<lparr>avellaneda_params := None\<rparr>)
           | InvalidJSON \<Rightarrow> (False, st\<lparr>avellaneda_params := None\<rparr>)
           | ReadError \<Rightarrow> (False, st\<lparr>avellaneda_params := None\<rparr>)
           | FileNotFound \<Rightarrow> (False, st\<lparr>avellaneda_params := None\<rparr>)))"
  by (simp add: load_stale [OF assms] split: option.splits file_state.splits)

text \<open>
  The first two candidates are missing and the third is valid: it is loaded (the fourth,
  invalid, is never read). With no file at all the load fails.
\<close>

theorem first_existing_candidate_decides_witness:
  "first_existing skipping_files (candidates example_config)
     = Some ''avellaneda_parameters_PAXG.json''
   \<and> load_avellaneda_parameters no_str_float example_config 1000 skipping_files
        (initial_state Buy) = (True, loaded_state)
   \<and> load_avellaneda_parameters no_str_float example_config 1000 no_files
        (initial_state Buy) = (False, initial_state Buy)"
proof -
  have n: "first_existing no_files ps = None" for ps
    by (induction ps) (simp_all add: first_existing_def no_files_def)
  from first_existing_candidate_decides [OF initial_stale,
      where sf = no_str_float and cfg = example_config and fs = skipping_files and now = 1000
        and ?sd1 = Buy]
    first_existing_candidate_decides [OF initial_stale,
      where sf = no_str_float and cfg = example_config and fs = no_files and now = 1000
        and ?sd1 = Buy]
  show ?thesis
    by (simp add: first_skipping skipping_at valid_params_accepted loaded_state_def n
          initial_cleared)
qed

text \<open>
  C8 as stated: the first candidate is invalid JSON (or holds a negative offset, or is
  unreadable) and a later candidate is readable and valid; the load fails instead of
  going on to the later candidate.
\<close>

theorem later_candidate_counterexample:
  "later_valid_files InvalidJSON ''avellaneda_parameters_PAXG.json'' = Contents valid_params
   \<and> params_accepted no_str_float valid_params
   \<and> ''avellaneda_parameters_PAXG.json'' \<in> set (candidates example_config)
   \<and> load_avellaneda_parameters no_str_float example_config 1000
        (later_valid_files InvalidJSON) (initial_state Buy) = (False, initial_state Buy)
   \<and> load_avellaneda_parameters no_str_float example_config 1000
        (later_valid_files (Contents (params_json (JFloat (Fin (- 1))) (JFloat (Fin 0.2)))))
        (initial_state Buy) = (False, initial_state Buy)
   \<and> load_avellaneda_parameters no_str_float example_config 1000
        (later_valid_files ReadError) (initial_state Buy) = (False, initial_state Buy)"
proof -
  have "\<not> params_accepted no_str_float (params_json (JFloat (Fin (- 1))) (JFloat (Fin 0.2)))"
    by (simp add: params_accepted_def params_json_def)
  moreover have "''avellaneda_parameters_PAXG.json'' \<in> set (candidates example_config)"
    by (simp add: example_candidates)
  ultimately show ?thesis
    by (simp add: load_stale [OF initial_stale] first_later_valid later_valid_at
          valid_params_accepted initial_cleared)
qed

section \<open>Account state cache: properties\<close>

text \<open>
  For the tracked account the cache changes exactly when both reported values convert
  to floats and are strictly positive; in every other case it is left as it was. An
  update for another account changes nothing.
\<close>

lemma stats_cache_update:
  "snd (on_user_stats_update sf cfg (ACCOUNT_INDEX cfg) stats st) =
     (case reported sf stats ''available_balance'' of
        Inl e \<Rightarrow> st
      | Inr a \<Rightarrow>
          (case reported sf stats ''portfolio_value'' of
             Inl e \<Rightarrow> st
           | Inr p \<Rightarrow>
               if pf_gt_zero a \<and> pf_gt_zero p
               then st\<lparr>available_capital := Some a, portfolio_value := Some p,
                       account_state_received := True\<rparr>
               else st))"
  by (simp add: on_user_stats_update_def reported_def split: sum.splits)

lemma stats_other_account:
  "account_id \<noteq> ACCOUNT_INDEX cfg \<Longrightarrow>
   on_user_stats_update sf cfg account_id stats st = (None, st)"
  by (simp add: on_user_stats_update_def)

text \<open>
  The handler swallows ValueError and TypeError only: what can leave it is the
  AttributeError of a \<^verbatim>\<open>stats\<close> that is not a dict and the OverflowError of an
  integer beyond the range of a float.
\<close>

lemma stats_escape:
  "fst (on_user_stats_update sf cfg (ACCOUNT_INDEX cfg) stats st) = Some e \<Longrightarrow>
   e = AttributeError \<or> e = OverflowError"
proof -
  have f: "py_float sf v = Inl x \<Longrightarrow> x = TypeError \<or> x = ValueError \<or> x = OverflowError" for v x
    by (cases v) (auto split: if_splits option.splits)
  have d: "dict_get s k v = Inl x \<Longrightarrow> x = AttributeError" for s k v x
    by (cases s) auto
  assume "fst (on_user_stats_update sf cfg (ACCOUNT_INDEX cfg) stats st) = Some e"
  then show ?thesis
    by (auto simp: on_user_stats_update_def stats_handler_def
          split: sum.splits if_splits dest: f d)
qed

text \<open>
  C5 at a failing input. The reported balance is the integer -10^400, a negative value:
  \<^verbatim>\<open>float\<close> raises OverflowError, which \<^verbatim>\<open>except (ValueError, TypeError)\<close>
  does not catch, so an exception leaves the handler (the cache is unchanged). The same
  happens for the balance 10^400, and with AttributeError when \<^verbatim>\<open>stats\<close> is null.
\<close>

theorem stats_overflow_escapes:
  "on_user_stats_update no_str_float example_config 0 (huge_balance_stats (- 1)) empty_capital
     = (Some OverflowError, empty_capital)
   \<and> on_user_stats_update no_str_float example_config 0 (huge_balance_stats 1) empty_capital
     = (Some OverflowError, empty_capital)
   \<and> on_user_stats_update no_str_float example_config 0 JNull empty_capital
     = (Some AttributeError, empty_capital)"
  by (simp add: on_user_stats_update_def huge_balance_stats_def example_config_def
        stats_handler_def float_overflow_bound_def)

section \<open>The parameter cache in reachable states\<close>

text \<open>
  Every reachable state of the loop has an empty or loader-accepted parameter cache.
\<close>

lemma price_cache_valid:
  assumes "cache_valid sf st"
    and "calculate_order_price sf cfg now fs mid sd st = (r, st1)"
  shows "cache_valid sf st1"
proof -
  obtain ok st' where l: "load_avellaneda_parameters sf cfg now fs st = (ok, st')"
    by (cases "load_avellaneda_parameters sf cfg now fs st")
  from assms(2) l have "st1 = st'"
    by (auto simp: calculate_order_price_def split: option.splits if_splits sum.splits)
  with load_ok_accepted(1) [OF assms(1) l] show ?thesis by simp
qed

lemma cancel_order_params:
  "avellaneda_params (fst (snd (cancel_order r oid st))) = avellaneda_params st"
  by (cases r) (simp_all add: cancel_order_def Let_def)

lemma place_order_params:
  "avellaneda_params (snd (place_order r cfg sd price oid amt st)) = avellaneda_params st"
  by (cases r) (simp_all add: place_order_def Let_def split: sum.splits)

lemma side_flip_params:
  "avellaneda_params (side_flip pos mid st) = avellaneda_params st"
  by (simp add: side_flip_def Let_def)

lemma loop_step_cache_valid:
  assumes "cache_valid sf st" and "loop_step sf cfg e (p, st) = (p', st')"
  shows "cache_valid sf st'"
proof (cases p)
  case AtTop
  with assms(2) have t: "loop_top sf cfg e st = (p', st')" by simp
  show ?thesis
  proof (cases "calculate_order_price sf cfg (clock e) (files e) (the (mid_read e))
                  (order_side st) st")
    case (Pair r st1)
    from price_cache_valid [OF assms(1) Pair] have v: "cache_valid sf st1" .
    from t Pair have "avellaneda_params st' = avellaneda_params st
                      \<or> avellaneda_params st' = avellaneda_params st1"
      by (auto simp: loop_top_def cancel_order_params
            split: if_splits option.splits sum.splits)
    with assms(1) v show ?thesis
      by (auto simp: cache_valid_def)
  qed
next
  case (AtQuote m price)
  with assms(2) have q: "loop_quote cfg e m price st = (p', st')" by simp
  have "avellaneda_params st' = avellaneda_params st"
  proof (cases "quote_decision cfg e (Fin m) st")
    case (PlaceOrder amt)
    let ?st0 = "st\<lparr>last_order_base_amount := amt\<rparr>"
    obtain res st1 where
      p: "place_order (transport e) cfg (order_side st) price (new_order_id e) amt ?st0 = (res, st1)"
      by (cases "place_order (transport e) cfg (order_side st) price (new_order_id e) amt ?st0")
    from place_order_params [of "transport e" cfg "order_side st" price "new_order_id e" amt ?st0] p
    have "avellaneda_params st1 = avellaneda_params st" by simp
    moreover from q PlaceOrder p have "st' = st1 \<or> st' = st1\<lparr>last_mid_price := Some m\<rparr>"
      by (auto simp: loop_quote_def split: sum.splits if_splits)
    ultimately show ?thesis by auto
  qed (use q in \<open>auto simp: loop_quote_def\<close>)
  with assms(1) show ?thesis by (simp add: cache_valid_def)
next
  case (AtTimeout m)
  with assms(2) have "avellaneda_params st' = avellaneda_params st"
    by (auto simp: loop_timeout_def side_flip_params cancel_order_params Let_def
          split: option.splits)
  with assms(1) show ?thesis by (simp add: cache_valid_def)
qed

lemma reachable_cache_valid: "reachable sf cfg c \<Longrightarrow> cache_valid sf (snd c)"
proof (induction rule: reachable.induct)
  case (start sd)
  show ?case by (simp add: cache_valid_def initial_state_def)
next
  case (start_closing c oid mid)
  show ?case by (simp add: cache_valid_def closing_state_def initial_state_def)
next
  case (step c e)
  obtain p st where c: "c = (p, st)" by (cases c)
  obtain p' st' where s: "loop_step sf cfg e (p, st) = (p', st')"
    by (cases "loop_step sf cfg e (p, st)")
  from step.IH c have "cache_valid sf st" by simp
  from loop_step_cache_valid [OF this s] show ?case by (simp add: c s)
qed

end
